theory Spec2Isabelle
  imports Complex_Main "HOL-Library.Sublist" "HOL-Library.Multiset"
begin

section \<open>Numbers: IEEE 754 binary64\<close>

text \<open>
  A number of the program is an IEEE 754 double. The model has the finite doubles: the
  reals that rounding to binary64 leaves unchanged. An arithmetic operation of the
  program is the exact operation followed by rounding to the nearest double, a tie going
  to the even significand, and a decimal literal of the source stands for the double
  nearest to it. Subnormal numbers are part of the model: the exponent is bounded below
  by \<open>-1022\<close>. The exponent is not bounded above: where the program would overflow to
  \<^verbatim>\<open>Infinity\<close> the model goes on with a finite number. There is no \<^verbatim>\<open>NaN\<close> and only
  one zero; a division by zero, which the program never does, yields zero.
\<close>

text \<open>Rounding a real to the nearest integer, a half to the even neighbour.\<close>

definition roundEven :: "real \<Rightarrow> int" where
  "roundEven y =
     (let f = \<lfloor>y\<rfloor>; d = y - of_int f
      in if d < 1 / 2 then f else if 1 / 2 < d then f + 1 else if even f then f else f + 1)"

text \<open>
  The binary exponent of a real, not below that of the subnormal numbers, and the unit
  in the last place of its 53-bit significand.
\<close>

definition exponentOf :: "real \<Rightarrow> int" where
  "exponentOf x = max \<lfloor>log 2 \<bar>x\<bar>\<rfloor> (- 1022)"

definition ulp :: "real \<Rightarrow> real" where
  "ulp x = 2 powi (exponentOf x - 52)"

text \<open>Rounding to binary64.\<close>

definition fl :: "real \<Rightarrow> real" where
  "fl x = (if x = 0 then 0 else of_int (roundEven (x / ulp x)) * ulp x)"

typedef double = "{x::real. fl x = x}"
  morphisms val Abs_double
  by (rule exI [of _ 0]) (simp add: fl_def)

text \<open>The double that a decimal literal or the exact result of an operation rounds to.\<close>

definition D :: "real \<Rightarrow> double" where
  "D x = Abs_double (fl x)"

instantiation double :: "{zero, plus, minus, times, inverse, linorder}"
begin

definition zero_double_def: "0 = D 0"

definition plus_double_def: "a + b = D (val a + val b)"

definition minus_double_def: "a - b = D (val a - val b)"

definition times_double_def: "a * b = D (val a * val b)"

definition divide_double_def: "a div b = D (val a / val b)"

definition inverse_double_def: "inverse a = D (1 / val a)"

definition less_eq_double_def: "a \<le> b \<longleftrightarrow> val a \<le> val b"

definition less_double_def: "a < b \<longleftrightarrow> val a < val b"

instance
proof
  fix a b c :: double
  show "(a < b) = (a \<le> b \<and> \<not> b \<le> a)"
    by (auto simp: less_double_def less_eq_double_def)
  show "a \<le> a"
    by (simp add: less_eq_double_def)
  show "a \<le> b \<Longrightarrow> b \<le> c \<Longrightarrow> a \<le> c"
    by (simp add: less_eq_double_def)
  show "a \<le> b \<Longrightarrow> b \<le> a \<Longrightarrow> a = b"
    by (simp add: less_eq_double_def val_inject)
  show "a \<le> b \<or> b \<le> a"
    by (auto simp: less_eq_double_def)
qed

end

text \<open>
  \<^verbatim>\<open>Math.round\<close> rounds to the nearest integer, a half upwards. The integer is a
  double whenever the argument is one, so the conversion does not round again.
\<close>

definition Math_round :: "double \<Rightarrow> double" where
  "Math_round x = D (of_int \<lfloor>val x + 1 / 2\<rfloor>)"

section \<open>Poker entities (types/poker.ts)\<close>

text \<open>
  An optional parameter or field (\<^verbatim>\<open>amount?: number\<close>) is an \<open>option\<close>, \<open>None\<close> standing
  for \<^verbatim>\<open>undefined\<close>.
\<close>

datatype Street = Preflop | Flop | Turn | River

datatype Position = UTG | HJ | CO | BTN | SB | BB

datatype ActionType = Fold | Check | Call | Bet | Raise

type_synonym CardString = string

record Card =
  rank :: char
  suit :: char

record PlayerAction =
  pa_type :: ActionType
  pa_amount :: "double option"
  pa_street :: Street

record Player =
  position :: Position
  stack :: double
  cards :: "Card list option"
  isHero :: bool

record GameState =
  street :: Street
  pot :: double
  board :: "Card list"
  players :: "Player list"
  actionHistory :: "PlayerAction list"
  currentPlayer :: Position

text \<open>\<^verbatim>\<open>parseCard\<close> reads the two characters of a card string such as \<^verbatim>\<open>Ah\<close>.\<close>

definition parseCard :: "CardString \<Rightarrow> Card" where
  "parseCard cardStr = \<lparr>rank = cardStr ! 0, suit = cardStr ! 1\<rparr>"

section \<open>GTO solutions (types/gto.ts)\<close>

record GTOAction =
  action :: ActionType
  size_pot :: "double option"
  frequency :: double
  ev :: double

text \<open>
  The free-text fields \<^verbatim>\<open>actionHistory\<close> and \<^verbatim>\<open>description\<close> of a solution are
  commentary for the reader of the data set; no function reads them, and they are left
  out of the record.
\<close>

record GTOSolution =
  sol_id :: string
  sol_street :: Street
  sol_position :: Position
  sol_villainPosition :: Position
  sol_board :: "CardString list"
  sol_pot :: double
  sol_stackDepth :: double
  sol_heroHand :: "CardString list option"
  sol_handClass :: "string option"
  actions :: "GTOAction list"

text \<open>
  \<^verbatim>\<open>Array.prototype.reduce\<close> called without an initial value starts from the first element
  and throws a TypeError on the empty array.
\<close>

datatype error = TypeError

fun reduce1 :: "('a \<Rightarrow> 'a \<Rightarrow> 'a) \<Rightarrow> 'a list \<Rightarrow> error + 'a" where
  "reduce1 f [] = Inl TypeError"
| "reduce1 f (x # xs) = Inr (foldl f x xs)"

definition pickBetter :: "GTOAction \<Rightarrow> GTOAction \<Rightarrow> GTOAction" where
  "pickBetter best current = (if ev current > ev best then current else best)"

definition getBestAction :: "GTOSolution \<Rightarrow> error + GTOAction" where
  "getBestAction solution = reduce1 pickBetter (actions solution)"

definition isBlunder :: "GTOSolution \<Rightarrow> GTOAction \<Rightarrow> error + bool" where
  "isBlunder solution a =
     (case getBestAction solution of
        Inl e \<Rightarrow> Inl e
      | Inr bestAction \<Rightarrow> Inr (ev bestAction - ev a > D 2.0))"

section \<open>The sample solutions (data/gtoSolutions.ts)\<close>

definition scenario1 :: GTOSolution where
  "scenario1 = \<lparr>sol_id = ''flop-btn-vs-co-ahigh-toppair'', sol_street = Flop,
     sol_position = BTN, sol_villainPosition = CO, sol_board = [''Ah'', ''Kd'', ''7s''],
     sol_pot = D 7.5, sol_stackDepth = D 100, sol_heroHand = None,
     sol_handClass = Some ''top-pair'',
     actions =
       [\<lparr>action = Check, size_pot = None, frequency = D 0.55, ev = D 11.3\<rparr>,
        \<lparr>action = Bet, size_pot = Some (D 0.33), frequency = D 0.35, ev = D 12.1\<rparr>,
        \<lparr>action = Bet, size_pot = Some (D 0.66), frequency = D 0.10, ev = D 11.5\<rparr>]\<rparr>"



definition scenario4 :: GTOSolution where
  "scenario4 = \<lparr>sol_id = ''flop-btn-vs-co-ahigh-toppair-facingbet'', sol_street = Flop,
     sol_position = BTN, sol_villainPosition = CO, sol_board = [''Ah'', ''Kd'', ''7s''],
     sol_pot = D 10.0, sol_stackDepth = D 97.5, sol_heroHand = None,
     sol_handClass = Some ''top-pair'',
     actions =
       [\<lparr>action = Fold, size_pot = None, frequency = D 0.0, ev = D (- 2.5)\<rparr>,
        \<lparr>action = Call, size_pot = None, frequency = D 0.75, ev = D 10.5\<rparr>,
        \<lparr>action = Raise, size_pot = Some (D 0.66), frequency = D 0.25, ev = D 9.8\<rparr>]\<rparr>"











section \<open>The game hook (hooks/usePokerGame.ts)\<close>

record Analysis =
  gtoFrequency :: double
  gtoEV :: double
  bestAction :: ActionType
  bestActionFreq :: double
  d_isBlunder :: bool

record Decision = Analysis +
  d_street :: Street
  d_action :: ActionType
  d_amount :: "double option"

definition createInitialGameState :: GameState where
  "createInitialGameState =
     \<lparr>street = Flop, pot = D 7.5,
      board = [parseCard ''Ah'', parseCard ''Kd'', parseCard ''7s''],
      players =
        [\<lparr>position = CO, stack = D 100, cards = None, isHero = False\<rparr>,
         \<lparr>position = BTN, stack = D 97.5,
          cards = Some [parseCard ''As'', parseCard ''Qs''], isHero = True\<rparr>],
      actionHistory = [], currentPlayer = BTN\<rparr>"

text \<open>\<^verbatim>\<open>Array.prototype.indexOf\<close>: the first index of the element, or \<open>-1\<close>.\<close>

fun indexOfFrom :: "'a list \<Rightarrow> 'a \<Rightarrow> int \<Rightarrow> int" where
  "indexOfFrom [] x i = - 1"
| "indexOfFrom (y # ys) x i = (if y = x then i else indexOfFrom ys x (i + 1))"

definition indexOf :: "'a list \<Rightarrow> 'a \<Rightarrow> int" where
  "indexOf xs x = indexOfFrom xs x 0"

definition streetOrder :: "Street list" where
  "streetOrder = [Preflop, Flop, Turn, River]"

definition getNextStreet :: "Street \<Rightarrow> Street" where
  "getNextStreet current =
     (let currentIndex = indexOf streetOrder current
      in if currentIndex < int (length streetOrder) - 1
         then streetOrder ! nat (currentIndex + 1)
         else current)"

text \<open>
  \<^verbatim>\<open>amount ? amount * state.pot : 0\<close>: an amount that is \<^verbatim>\<open>undefined\<close> or zero is falsy.
\<close>

definition betAmountOf :: "double option \<Rightarrow> double \<Rightarrow> double" where
  "betAmountOf amount p =
     (case amount of None \<Rightarrow> 0 | Some x \<Rightarrow> if x \<noteq> 0 then x * p else 0)"

definition processAction :: "GameState \<Rightarrow> ActionType \<Rightarrow> double option \<Rightarrow> GameState" where
  "processAction state a amount =
     (let newState = state;
          newState = newState\<lparr>actionHistory :=
            actionHistory state @ [\<lparr>pa_type = a, pa_amount = amount, pa_street = street state\<rparr>]\<rparr>;
          newState =
            (if a = Bet \<or> a = Raise
             then newState\<lparr>pot := pot newState + betAmountOf amount (pot state)\<rparr>
             else (case amount of
                     Some x \<Rightarrow> if a = Call \<and> x \<noteq> 0
                               then newState\<lparr>pot := pot newState + x\<rparr> else newState
                   | None \<Rightarrow> newState))
      in if a \<noteq> Fold
         then (let newState = newState\<lparr>street := getNextStreet (street state)\<rparr>
               in if street newState = Turn
                  then newState\<lparr>board := board state @ [parseCard ''3c'']\<rparr>
                  else if street newState = River
                  then newState\<lparr>board := board state @ [parseCard ''9h'']\<rparr>
                  else newState)
         else newState)"

text \<open>
  The placeholder table of \<^verbatim>\<open>analyzeDecision\<close>: frequency and EV for each action type.
  The lookup \<^verbatim>\<open>gtoSolution[action] || { freq: 0.0, ev: 0 }\<close> falls back to a zero entry.
\<close>

definition gtoSolution :: "(ActionType \<times> double \<times> double) list" where
  "gtoSolution =
     [(Check, D 0.60, D 11.3), (Bet, D 0.40, D 12.1), (Fold, D 0.0, D (- 2.5)),
      (Call, D 0.35, D 10.5), (Raise, D 0.20, D 11.0)]"

definition lookupAction :: "ActionType \<Rightarrow> double \<times> double" where
  "lookupAction a = (case map_of gtoSolution a of Some d \<Rightarrow> d | None \<Rightarrow> (D 0.0, D 0))"

definition analyzeDecision :: "GameState \<Rightarrow> ActionType \<Rightarrow> double option \<Rightarrow> Analysis" where
  "analyzeDecision state a amount =
     (let actionData = lookupAction a;
          best = Bet;
          bestActionData = the (map_of gtoSolution best);
          blunder = (snd bestActionData - snd actionData > D 2.0)
      in \<lparr>gtoFrequency = fst actionData, gtoEV = snd actionData, bestAction = best,
          bestActionFreq = fst bestActionData, d_isBlunder = blunder\<rparr>)"

text \<open>
  The state the hook holds between renders. Each call of \<^verbatim>\<open>makeAction\<close> is taken to
  see the state the previous call has set.
\<close>

record HookState =
  gameState :: GameState
  decisions :: "Decision list"
  isHandComplete :: bool

definition startNewHand :: HookState where
  "startNewHand = \<lparr>gameState = createInitialGameState, decisions = [], isHandComplete = False\<rparr>"

definition makeAction :: "HookState \<Rightarrow> ActionType \<Rightarrow> double option \<Rightarrow> HookState" where
  "makeAction h a amount =
     (if isHandComplete h then h
      else (let gtoAnalysis = analyzeDecision (gameState h) a amount;
                newDecision =
                  \<lparr>gtoFrequency = gtoFrequency gtoAnalysis, gtoEV = gtoEV gtoAnalysis,
                   bestAction = bestAction gtoAnalysis,
                   bestActionFreq = bestActionFreq gtoAnalysis,
                   d_isBlunder = d_isBlunder gtoAnalysis,
                   d_street = street (gameState h), d_action = a, d_amount = amount\<rparr>;
                newGameState = processAction (gameState h) a amount
            in \<lparr>gameState = newGameState, decisions = decisions h @ [newDecision],
                isHandComplete =
                  (if a = Fold \<or> street newGameState = River then True
                   else isHandComplete h)\<rparr>))"

text \<open>
  The game states a hand goes through: the state at the start and the state after each
  submitted action, in order.
\<close>

fun handStates :: "HookState \<Rightarrow> (ActionType \<times> double option) list \<Rightarrow> HookState list" where
  "handStates h [] = [h]"
| "handStates h ((a, amount) # rest) = h # handStates (makeAction h a amount) rest"

definition boardLengths :: "HookState \<Rightarrow> (ActionType \<times> double option) list \<Rightarrow> nat list" where
  "boardLengths h acts = map (\<lambda>h'. length (board (gameState h'))) (handStates h acts)"

section \<open>The hand review (the HandReview component)\<close>

definition evLoss :: "Decision \<Rightarrow> double" where
  "evLoss d = (if d_isBlunder d then D 3 else (D 1 - gtoFrequency d) * D 1.5)"

text \<open>\<^verbatim>\<open>decisions.length\<close> is a number; a length is an integer below \<open>2 ^ 53\<close> and exact.\<close>

definition calculateScore :: "Decision list \<Rightarrow> double" where
  "calculateScore ds =
     (if length ds = 0 then D 100
      else (let totalEVLoss = fold (\<lambda>d total. total + evLoss d) ds 0;
                score = max 0 (D 100 - (totalEVLoss / D (real (length ds))) * D 20)
            in Math_round score))"

section \<open>processAction on a store\<close>

text \<open>
  In the program a game state is an object whose \<^verbatim>\<open>board\<close>, \<^verbatim>\<open>players\<close> and
  \<^verbatim>\<open>actionHistory\<close> fields hold references to arrays, and \<^verbatim>\<open>{ ...state }\<close> is a shallow
  copy: the new object shares the three arrays with the old one. Whether the caller's
  state survives the call therefore depends on what is written where. The store below
  keeps the state objects and the arrays of each element type in a list of their own;
  an address is an index, and allocation appends. The elements of the arrays (cards,
  players, action records) are objects that no function of the program writes to; they
  are kept as values.
\<close>

type_synonym addr = nat

record StateObj =
  o_street :: Street
  o_pot :: double
  o_board :: addr
  o_players :: addr
  o_actionHistory :: addr
  o_currentPlayer :: Position

record Heap =
  stateObjs :: "StateObj list"
  cardArrays :: "Card list list"
  playerArrays :: "Player list list"
  actionArrays :: "PlayerAction list list"

definition newStateObj :: "Heap \<Rightarrow> StateObj \<Rightarrow> addr \<times> Heap" where
  "newStateObj hp ob = (length (stateObjs hp), hp\<lparr>stateObjs := stateObjs hp @ [ob]\<rparr>)"

definition newCardArray :: "Heap \<Rightarrow> Card list \<Rightarrow> addr \<times> Heap" where
  "newCardArray hp cs = (length (cardArrays hp), hp\<lparr>cardArrays := cardArrays hp @ [cs]\<rparr>)"

definition newActionArray :: "Heap \<Rightarrow> PlayerAction list \<Rightarrow> addr \<times> Heap" where
  "newActionArray hp as = (length (actionArrays hp), hp\<lparr>actionArrays := actionArrays hp @ [as]\<rparr>)"

definition getObj :: "Heap \<Rightarrow> addr \<Rightarrow> StateObj" where
  "getObj hp p = stateObjs hp ! p"

definition setObj :: "Heap \<Rightarrow> addr \<Rightarrow> StateObj \<Rightarrow> Heap" where
  "setObj hp p ob = hp\<lparr>stateObjs := (stateObjs hp)[p := ob]\<rparr>"

text \<open>
  Every read \<^verbatim>\<open>state.f\<close> and every write \<^verbatim>\<open>newState.f = ...\<close> of the source goes through
  the store, at the address of the object it names.
\<close>

definition processActionHeap :: "Heap \<Rightarrow> addr \<Rightarrow> ActionType \<Rightarrow> double option \<Rightarrow> addr \<times> Heap" where
  "processActionHeap hp0 state a amount =
     (let (newState, hp) = newStateObj hp0 (getObj hp0 state);
          (hist, hp) = newActionArray hp
             (actionArrays hp ! o_actionHistory (getObj hp state)
                @ [\<lparr>pa_type = a, pa_amount = amount, pa_street = o_street (getObj hp state)\<rparr>]);
          hp = setObj hp newState ((getObj hp newState)\<lparr>o_actionHistory := hist\<rparr>);
          hp =
            (if a = Bet \<or> a = Raise
             then setObj hp newState ((getObj hp newState)\<lparr>o_pot :=
                    o_pot (getObj hp newState) + betAmountOf amount (o_pot (getObj hp state))\<rparr>)
             else (case amount of
                     Some x \<Rightarrow>
                       if a = Call \<and> x \<noteq> 0
                       then setObj hp newState
                              ((getObj hp newState)\<lparr>o_pot := o_pot (getObj hp newState) + x\<rparr>)
                       else hp
                   | None \<Rightarrow> hp))
      in if a \<noteq> Fold
         then (let hp = setObj hp newState
                      ((getObj hp newState)\<lparr>o_street := getNextStreet (o_street (getObj hp state))\<rparr>)
               in if o_street (getObj hp newState) = Turn
                  then (let (b, hp) = newCardArray hp
                              (cardArrays hp ! o_board (getObj hp state) @ [parseCard ''3c''])
                        in (newState, setObj hp newState ((getObj hp newState)\<lparr>o_board := b\<rparr>)))
                  else if o_street (getObj hp newState) = River
                  then (let (b, hp) = newCardArray hp
                              (cardArrays hp ! o_board (getObj hp state) @ [parseCard ''9h''])
                        in (newState, setObj hp newState ((getObj hp newState)\<lparr>o_board := b\<rparr>)))
                  else (newState, hp))
         else (newState, hp))"

text \<open>The game state that an address stands for.\<close>

definition readState :: "Heap \<Rightarrow> addr \<Rightarrow> GameState" where
  "readState hp p =
     (let ob = getObj hp p
      in \<lparr>street = o_street ob, pot = o_pot ob, board = cardArrays hp ! o_board ob,
          players = playerArrays hp ! o_players ob,
          actionHistory = actionArrays hp ! o_actionHistory ob,
          currentPlayer = o_currentPlayer ob\<rparr>)"

definition validState :: "Heap \<Rightarrow> addr \<Rightarrow> bool" where
  "validState hp p =
     (p < length (stateObjs hp)
      \<and> o_board (getObj hp p) < length (cardArrays hp)
      \<and> o_players (getObj hp p) < length (playerArrays hp)
      \<and> o_actionHistory (getObj hp p) < length (actionArrays hp))"

text \<open>The state of \<open>createInitialGameState\<close>, laid out in a store.\<close>

definition initialHeap :: Heap where
  "initialHeap =
     \<lparr>stateObjs = [\<lparr>o_street = Flop, o_pot = D 7.5, o_board = 0, o_players = 0,
                    o_actionHistory = 0, o_currentPlayer = BTN\<rparr>],
      cardArrays = [board createInitialGameState],
      playerArrays = [players createInitialGameState],
      actionArrays = [[]]\<rparr>"

section \<open>What the specification asks for\<close>

text \<open>
  The definitions of this section follow the words of the specification, not the code;
  they are what the code is compared with.
\<close>

text \<open>
  Legality of an action type: check and bet only when nothing is to be called; call,
  raise and fold only when a bet is outstanding.
\<close>

definition spec_permitted :: "bool \<Rightarrow> ActionType \<Rightarrow> bool" where
  "spec_permitted betOutstanding a =
     (if betOutstanding then a = Call \<or> a = Raise \<or> a = Fold else a = Check \<or> a = Bet)"

text \<open>
  The hand score: a loss of 3.0 for a blunder and of \<open>(1 - frequency) * 1.5\<close> otherwise,
  averaged over the hand, times 20, subtracted from 100, clamped to \<open>[0, 100]\<close>; the
  empty list scores 100. The arithmetic is the program's, in binary64, and the losses
  are added up in the order of the list.
\<close>

definition spec_loss :: "Decision \<Rightarrow> double" where
  "spec_loss d = (if d_isBlunder d then D 3.0 else (D 1 - gtoFrequency d) * D 1.5)"

definition spec_calculateScore :: "Decision list \<Rightarrow> double" where
  "spec_calculateScore ds =
     (if ds = [] then D 100
      else min (D 100)
             (max 0 (D 100 - (foldl (+) 0 (map spec_loss ds) / D (real (length ds))) * D 20)))"




section \<open>Example inputs\<close>

text \<open>A solution whose two actions have the same EV and different frequencies.\<close>

definition tiedSolution :: GTOSolution where
  "tiedSolution = scenario1\<lparr>actions :=
     [\<lparr>action = Check, size_pot = None, frequency = D 0.3, ev = D 5\<rparr>,
      \<lparr>action = Bet, size_pot = Some (D 0.5), frequency = D 0.7, ev = D 5\<rparr>]\<rparr>"

text \<open>A call that the solution plays three times out of four (as in scenario 4).\<close>

definition callDecision :: Decision where
  "callDecision = \<lparr>gtoFrequency = D 0.75, gtoEV = D 10.5, bestAction = Call,
     bestActionFreq = D 0.75, d_isBlunder = False, d_street = Flop, d_action = Call,
     d_amount = None\<rparr>"

text \<open>The fold on the flop, as \<open>analyzeDecision\<close> evaluates it: a blunder.\<close>

definition blunderDecision :: Decision where
  "blunderDecision = \<lparr>gtoFrequency = D 0.0, gtoEV = D (- 2.5), bestAction = Bet,
     bestActionFreq = D 0.40, d_isBlunder = True, d_street = Flop, d_action = Fold,
     d_amount = None\<rparr>"

text \<open>A near-optimal decision: no blunder, played by the solution nine times out of ten.\<close>

definition nearOptimalDecision :: Decision where
  "nearOptimalDecision = \<lparr>gtoFrequency = D 0.9, gtoEV = D 12.0, bestAction = Bet,
     bestActionFreq = D 0.9, d_isBlunder = False, d_street = Turn, d_action = Bet,
     d_amount = Some (D 0.33)\<rparr>"

text \<open>A decision that is no blunder and that the solution plays rarely.\<close>

definition rareDecision :: Decision where
  "rareDecision = \<lparr>gtoFrequency = D 0.15, gtoEV = D 11.8, bestAction = Bet,
     bestActionFreq = D 0.40, d_isBlunder = False, d_street = Flop, d_action = Bet,
     d_amount = Some (D 0.5)\<rparr>"

section \<open>Rounding to binary64: basic facts\<close>

lemma roundEven_int [simp]: "roundEven (of_int n) = n"
  by (simp add: roundEven_def)

lemma roundEven_le: "y \<le> of_int n \<Longrightarrow> roundEven y \<le> n"
  unfolding roundEven_def Let_def by (auto; linarith)

lemma roundEven_ge: "of_int n \<le> y \<Longrightarrow> n \<le> roundEven y"
  unfolding roundEven_def Let_def by (auto; linarith)

lemma roundEven_mono: "y \<le> z \<Longrightarrow> roundEven y \<le> roundEven z"
proof -
  assume yz: "y \<le> z"
  have fy: "\<lfloor>y\<rfloor> \<le> \<lfloor>z\<rfloor>" using yz by (rule floor_mono)
  show ?thesis
  proof (cases "\<lfloor>y\<rfloor> = \<lfloor>z\<rfloor>")
    case True
    then show ?thesis using yz unfolding roundEven_def Let_def by auto
  next
    case False
    then have lt: "\<lfloor>y\<rfloor> + 1 \<le> \<lfloor>z\<rfloor>" using fy by simp
    have "roundEven y \<le> \<lfloor>y\<rfloor> + 1" by (rule roundEven_le) linarith
    moreover have "\<lfloor>z\<rfloor> \<le> roundEven z" by (rule roundEven_ge) simp
    ultimately show ?thesis using lt by linarith
  qed
qed

lemma ulp_pos: "0 < ulp x"
  by (simp add: ulp_def)

lemma ulp_neq0 [simp]: "ulp x \<noteq> 0"
  using ulp_pos [of x] by linarith

lemma powi_split: "(2::real) powi (e + 1) = 2 ^ 53 * 2 powi (e - 52)"
  using power_int_add [of "2::real" 53 "e - 52"] by (simp add: add.commute)

lemma powi_split52: "(2::real) powi e = 2 ^ 52 * 2 powi (e - 52)"
  using power_int_add [of "2::real" 52 "e - 52"] by simp

lemma powi_double: "(2::real) powi (e - 51) = 2 * 2 powi (e - 52)"
  using power_int_add [of "2::real" 1 "e - 52"] by simp

lemma exponentOf_ge: "- 1022 \<le> exponentOf x"
  by (simp add: exponentOf_def)

lemma powi_powr: "(2::real) powi k = 2 powr (of_int k)"
  by (simp add: powr_real_of_int')

lemma floor_log2_bounds:
  assumes "0 < x"
  shows "2 powi \<lfloor>log 2 x\<rfloor> \<le> x" and "x < 2 powi (\<lfloor>log 2 x\<rfloor> + 1)"
  using floor_log_eq_powr_iff [of x 2 "\<lfloor>log 2 x\<rfloor>"] assms by (simp_all add: powi_powr)

lemma floor_log2_eq:
  assumes "2 powi k \<le> x" and "x < 2 powi (k + 1)"
  shows "\<lfloor>log 2 x\<rfloor> = k"
proof -
  have "0 < x" using assms(1) by (smt (verit) zero_less_power_int)
  then show ?thesis
    using floor_log_eq_powr_iff [of x 2 k] assms by (simp add: powi_powr)
qed

lemma exponentOf_upper: "x \<noteq> 0 \<Longrightarrow> \<bar>x\<bar> < 2 powi (exponentOf x + 1)"
proof -
  assume "x \<noteq> 0"
  then have p: "0 < \<bar>x\<bar>" by simp
  have "\<bar>x\<bar> < 2 powi (\<lfloor>log 2 \<bar>x\<bar>\<rfloor> + 1)" by (rule floor_log2_bounds [OF p])
  also have "\<dots> \<le> 2 powi (exponentOf x + 1)"
    by (rule power_int_increasing) (simp_all add: exponentOf_def)
  finally show ?thesis .
qed

lemma exponentOf_lower:
  "x \<noteq> 0 \<Longrightarrow> - 1022 < exponentOf x \<Longrightarrow> 2 powi exponentOf x \<le> \<bar>x\<bar>"
proof -
  assume "x \<noteq> 0" and n: "- 1022 < exponentOf x"
  then have p: "0 < \<bar>x\<bar>" by simp
  from n have "exponentOf x = \<lfloor>log 2 \<bar>x\<bar>\<rfloor>" by (simp add: exponentOf_def max_def split: if_splits)
  then show ?thesis using floor_log2_bounds(1) [OF p] by simp
qed

lemma exponentOf_eq:
  assumes "- 1022 \<le> e" and "\<bar>x\<bar> < 2 powi (e + 1)" and "2 powi e \<le> \<bar>x\<bar> \<or> (e = - 1022 \<and> x \<noteq> 0)"
  shows "exponentOf x = e"
proof (cases "2 powi e \<le> \<bar>x\<bar>")
  case True
  then have "\<lfloor>log 2 \<bar>x\<bar>\<rfloor> = e" using assms(2) by (rule floor_log2_eq)
  then show ?thesis using assms(1) by (simp add: exponentOf_def)
next
  case False
  then have e: "e = - 1022" and x: "x \<noteq> 0" using assms(3) by auto
  have p: "0 < \<bar>x\<bar>" using x by simp
  have "2 powi \<lfloor>log 2 \<bar>x\<bar>\<rfloor> \<le> \<bar>x\<bar>" by (rule floor_log2_bounds [OF p])
  also have "\<bar>x\<bar> < 2 powi e" using False by simp
  finally have "\<lfloor>log 2 \<bar>x\<bar>\<rfloor> < e"
    by (smt (verit) power_int_increasing)
  then show ?thesis using e by (simp add: exponentOf_def)
qed

lemma exponentOf_mono: "x \<noteq> 0 \<Longrightarrow> \<bar>x\<bar> \<le> \<bar>y\<bar> \<Longrightarrow> exponentOf x \<le> exponentOf y"
proof -
  assume x: "x \<noteq> 0" and xy: "\<bar>x\<bar> \<le> \<bar>y\<bar>"
  then have "log 2 \<bar>x\<bar> \<le> log 2 \<bar>y\<bar>" by simp
  then have "\<lfloor>log 2 \<bar>x\<bar>\<rfloor> \<le> \<lfloor>log 2 \<bar>y\<bar>\<rfloor>" by (rule floor_mono)
  then show ?thesis by (simp add: exponentOf_def)
qed

text \<open>Rounding a real whose binary exponent is known.\<close>

lemma fl_eval:
  assumes "2 powi e \<le> \<bar>x\<bar>" and "\<bar>x\<bar> < 2 powi (e + 1)" and "- 1022 \<le> e"
  shows "fl x = of_int (roundEven (x / 2 powi (e - 52))) * 2 powi (e - 52)"
proof -
  have "x \<noteq> 0" using assms(1) by (smt (verit) zero_less_power_int abs_zero)
  moreover have "exponentOf x = e" using assms by (intro exponentOf_eq) auto
  ultimately show ?thesis by (simp add: fl_def ulp_def)
qed

lemma fl_dyadic:
  assumes "\<bar>m\<bar> < 2 ^ 53" and "- 1074 \<le> k"
  shows "fl (of_int m * 2 powi k) = of_int m * 2 powi k"
proof (cases "m = 0")
  case True
  then show ?thesis by (simp add: fl_def)
next
  case False
  let ?x = "of_int m * (2::real) powi k"
  have x0: "?x \<noteq> 0" using False by simp
  let ?e = "exponentOf ?x"
  have le: "?e \<le> k + 52"
  proof (rule ccontr)
    assume "\<not> ?e \<le> k + 52"
    then have gt: "k + 53 \<le> ?e" by simp
    then have "- 1022 < ?e" using assms(2) by linarith
    then have "2 powi ?e \<le> \<bar>?x\<bar>" by (rule exponentOf_lower [OF x0])
    moreover have "(2::real) powi (k + 53) \<le> 2 powi ?e"
      using gt by (intro power_int_increasing) simp_all
    moreover have "\<bar>?x\<bar> < 2 ^ 53 * 2 powi k"
    proof -
      have "\<bar>real_of_int m\<bar> < 2 ^ 53" using assms(1)
        by (metis of_int_abs of_int_less_numeral_power_cancel_iff)
      then show ?thesis by (simp add: abs_mult)
    qed
    moreover have "(2::real) powi (k + 53) = 2 ^ 53 * 2 powi k"
      by (simp add: power_int_add)
    ultimately show False by linarith
  qed
  define x where "x = of_int m * (2::real) powi k"
  define e where "e = exponentOf x"
  define j where "j = nat (k + 52 - e)"
  have j: "k = (e - 52) + int j" using le by (simp add: j_def e_def x_def)
  have pk: "(2::real) powi k = 2 ^ j * 2 powi (e - 52)"
    unfolding j by (simp add: power_int_add)
  have u: "ulp x = 2 powi (e - 52)" by (simp add: ulp_def e_def)
  have xe: "x = of_int (m * 2 ^ j) * ulp x" unfolding u by (simp add: x_def pk)
  have "x / ulp x = of_int (m * 2 ^ j)" by (subst xe) simp
  then have "roundEven (x / ulp x) = m * 2 ^ j" by (metis roundEven_int)
  then have "fl x = x" using x0 xe by (simp add: fl_def x_def [symmetric])
  then show ?thesis by (simp add: x_def)
qed

lemma roundEven_abs_le: "\<bar>y\<bar> \<le> of_int n \<Longrightarrow> \<bar>roundEven y\<bar> \<le> n"
proof -
  assume a: "\<bar>y\<bar> \<le> of_int n"
  then have "y \<le> of_int n" and "of_int (- n) \<le> y" by (simp_all add: abs_le_iff)
  then have "roundEven y \<le> n" and "- n \<le> roundEven y"
    by (simp_all add: roundEven_le roundEven_ge)
  then show ?thesis by linarith
qed

lemma fl_scaled: "x \<noteq> 0 \<Longrightarrow> fl x = of_int (roundEven (x / ulp x)) * ulp x"
  by (simp add: fl_def)

lemma fl_nonneg: "0 \<le> x \<Longrightarrow> 0 \<le> fl x"
proof (cases "x = 0")
  case True
  then show ?thesis by (simp add: fl_def)
next
  case False
  assume "0 \<le> x"
  then have "of_int 0 \<le> x / ulp x" using ulp_pos [of x] by (simp add: divide_nonneg_pos)
  then have "0 \<le> roundEven (x / ulp x)" by (rule roundEven_ge)
  then have "0 \<le> of_int (roundEven (x / ulp x)) * ulp x"
    using ulp_pos [of x] by (intro mult_nonneg_nonneg) simp_all
  then show ?thesis by (simp add: fl_scaled [OF False])
qed

lemma fl_nonpos: "x \<le> 0 \<Longrightarrow> fl x \<le> 0"
proof (cases "x = 0")
  case True
  then show ?thesis by (simp add: fl_def)
next
  case False
  assume "x \<le> 0"
  then have "x / ulp x \<le> of_int 0" using ulp_pos [of x] by (simp add: divide_nonpos_pos)
  then have "roundEven (x / ulp x) \<le> 0" by (rule roundEven_le)
  then have "of_int (roundEven (x / ulp x)) * ulp x \<le> 0"
    using ulp_pos [of x] by (intro mult_nonpos_nonneg) simp_all
  then show ?thesis by (simp add: fl_scaled [OF False])
qed

lemma scaled_bound:
  assumes "x \<noteq> 0"
  shows "\<bar>x / ulp x\<bar> < 2 ^ 53"
proof -
  have "\<bar>x\<bar> < 2 powi (exponentOf x + 1)" by (rule exponentOf_upper [OF assms])
  then have "\<bar>x\<bar> < 2 ^ 53 * ulp x" by (simp add: powi_split ulp_def)
  then have "\<bar>x\<bar> / ulp x < 2 ^ 53" using ulp_pos [of x] by (simp add: pos_divide_less_eq)
  then show ?thesis using ulp_pos [of x] by (simp add: abs_divide)
qed

lemma fl_idem [simp]: "fl (fl x) = fl x"
proof (cases "x = 0")
  case True
  then show ?thesis by (simp add: fl_def)
next
  case False
  define n where "n = roundEven (x / ulp x)"
  define e where "e = exponentOf x"
  have e: "- 1022 \<le> e" by (simp add: e_def exponentOf_ge)
  have u: "ulp x = 2 powi (e - 52)" by (simp add: ulp_def e_def)
  have f: "fl x = of_int n * 2 powi (e - 52)" by (simp add: fl_scaled [OF False] n_def u)
  have "\<bar>x / ulp x\<bar> \<le> of_int (2 ^ 53)" using scaled_bound [OF False] by simp
  then have nb: "\<bar>n\<bar> \<le> 2 ^ 53" unfolding n_def by (rule roundEven_abs_le)
  show ?thesis
  proof (cases "\<bar>n\<bar> < 2 ^ 53")
    case True
    have "- 1074 \<le> e - 52" using e by simp
    then show ?thesis unfolding f by (rule fl_dyadic [OF True])
  next
    case False
    then have "n = 2 ^ 53 \<or> n = - (2 ^ 53)" using nb by linarith
    then obtain m :: int where m: "n = m * 2" and mb: "\<bar>m\<bar> < 2 ^ 53"
    proof
      assume "n = 2 ^ 53"
      then show ?thesis by (intro that [of "2 ^ 52"]) simp_all
    next
      assume "n = - (2 ^ 53)"
      then show ?thesis by (intro that [of "- (2 ^ 52)"]) simp_all
    qed
    have k: "- 1074 \<le> e - 51" using e by simp
    have "of_int n * (2::real) powi (e - 52) = of_int m * 2 powi (e - 51)"
      by (simp add: m powi_double)
    then show ?thesis
      unfolding f using fl_dyadic [OF mb k] by simp
  qed
qed

lemma fl_upper: "0 < x \<Longrightarrow> fl x \<le> 2 powi (exponentOf x + 1)"
proof -
  assume x: "0 < x"
  then have x0: "x \<noteq> 0" by simp
  have "x / ulp x < 2 ^ 53" using scaled_bound [OF x0] by linarith
  then have "x / ulp x \<le> of_int (2 ^ 53)" by simp
  then have "roundEven (x / ulp x) \<le> 2 ^ 53" by (rule roundEven_le)
  then have "of_int (roundEven (x / ulp x)) \<le> (2 ^ 53 :: real)"
    by (metis of_int_le_numeral_power_cancel_iff)
  then have "of_int (roundEven (x / ulp x)) * ulp x \<le> 2 ^ 53 * ulp x"
    using ulp_pos [of x] by (intro mult_right_mono) simp_all
  then show ?thesis by (simp add: fl_scaled [OF x0] powi_split ulp_def)
qed

lemma fl_lower: "0 < x \<Longrightarrow> - 1022 < exponentOf x \<Longrightarrow> 2 powi exponentOf x \<le> fl x"
proof -
  assume x: "0 < x" and n: "- 1022 < exponentOf x"
  then have x0: "x \<noteq> 0" by simp
  have "2 powi exponentOf x \<le> \<bar>x\<bar>" by (rule exponentOf_lower [OF x0 n])
  then have "2 ^ 52 * ulp x \<le> x" using x by (simp add: powi_split52 [of "exponentOf x"] ulp_def)
  then have "of_int (2 ^ 52) \<le> x / ulp x" using ulp_pos [of x] by (simp add: pos_le_divide_eq)
  then have "2 ^ 52 \<le> roundEven (x / ulp x)" by (rule roundEven_ge)
  then have "(2 ^ 52 :: real) \<le> of_int (roundEven (x / ulp x))"
    by (metis numeral_power_le_of_int_cancel_iff)
  then have "2 ^ 52 * ulp x \<le> of_int (roundEven (x / ulp x)) * ulp x"
    using ulp_pos [of x] by (intro mult_right_mono) simp_all
  then show ?thesis by (simp add: fl_scaled [OF x0] powi_split52 [of "exponentOf x"] ulp_def)
qed

lemma fl_mono_pos:
  assumes "0 < x" and "x \<le> y"
  shows "fl x \<le> fl y"
proof -
  have y: "0 < y" using assms by simp
  have ee: "exponentOf x \<le> exponentOf y" by (rule exponentOf_mono) (use assms in simp_all)
  show ?thesis
  proof (cases "exponentOf x = exponentOf y")
    case True
    then have u: "ulp x = ulp y" by (simp add: ulp_def)
    have "x / ulp y \<le> y / ulp y" using assms(2) ulp_pos [of y] by (simp add: divide_right_mono)
    then have "roundEven (x / ulp y) \<le> roundEven (y / ulp y)" by (rule roundEven_mono)
    then have "of_int (roundEven (x / ulp y)) * ulp y \<le> of_int (roundEven (y / ulp y)) * ulp y"
      using ulp_pos [of y] by (intro mult_right_mono) simp_all
    then show ?thesis using assms(1) y by (simp add: fl_def u)
  next
    case False
    then have lt: "exponentOf x + 1 \<le> exponentOf y" using ee by simp
    then have n: "- 1022 < exponentOf y" using exponentOf_ge [of x] by linarith
    have "fl x \<le> 2 powi (exponentOf x + 1)" by (rule fl_upper [OF assms(1)])
    also have "\<dots> \<le> 2 powi exponentOf y" using lt by (intro power_int_increasing) simp_all
    also have "\<dots> \<le> fl y" by (rule fl_lower [OF y n])
    finally show ?thesis .
  qed
qed

lemma fl_zero [simp]: "fl 0 = 0"
  by (simp add: fl_def)

lemma fl_mono_nonneg: "0 \<le> x \<Longrightarrow> x \<le> y \<Longrightarrow> fl x \<le> fl y"
proof (cases "x = 0")
  case True
  assume "x \<le> y"
  then have "0 \<le> fl y" using True by (intro fl_nonneg) simp
  then show ?thesis using True by simp
next
  case False
  assume "0 \<le> x" and xy: "x \<le> y"
  then have "0 < x" using False by simp
  then show ?thesis using xy by (rule fl_mono_pos)
qed

lemma roundEven_minus: "roundEven (- y) = - roundEven y"
proof (cases "y = of_int \<lfloor>y\<rfloor>")
  case True
  then have "roundEven (- y) = roundEven (of_int (- \<lfloor>y\<rfloor>))" by simp
  also have "\<dots> = - \<lfloor>y\<rfloor>" by (rule roundEven_int)
  also have "\<dots> = - roundEven y" using roundEven_int [of "\<lfloor>y\<rfloor>"] True by simp
  finally show ?thesis .
next
  case False
  then have f: "\<lfloor>- y\<rfloor> = - \<lfloor>y\<rfloor> - 1" by (simp add: floor_minus ceiling_altdef)
  have d: "0 < y - of_int \<lfloor>y\<rfloor>" "y - of_int \<lfloor>y\<rfloor> < 1" using False by linarith+
  show ?thesis
    unfolding roundEven_def Let_def f using d by (auto simp: algebra_simps)
qed

lemma exponentOf_minus [simp]: "exponentOf (- x) = exponentOf x"
  by (simp add: exponentOf_def)

lemma ulp_minus [simp]: "ulp (- x) = ulp x"
  by (simp add: ulp_def)

lemma fl_minus: "fl (- x) = - fl x"
  by (simp add: fl_def roundEven_minus)

lemma fl_mono: "x \<le> y \<Longrightarrow> fl x \<le> fl y"
proof -
  assume xy: "x \<le> y"
  consider "0 \<le> x" | "x < 0" "0 \<le> y" | "y < 0" by linarith
  then show ?thesis
  proof cases
    case 1
    then show ?thesis using xy by (rule fl_mono_nonneg)
  next
    case 2
    then have "fl x \<le> 0" and "0 \<le> fl y" by (simp_all add: fl_nonpos fl_nonneg)
    then show ?thesis by linarith
  next
    case 3
    then have "0 \<le> - y" and "- y \<le> - x" using xy by simp_all
    then have "fl (- y) \<le> fl (- x)" by (rule fl_mono_nonneg)
    then show ?thesis by (simp add: fl_minus)
  qed
qed

lemma val_fl [simp]: "fl (val a) = val a"
  using val [of a] by simp

lemma val_D [simp]: "val (D x) = fl x"
  by (simp add: D_def Abs_double_inverse)

lemma val_zero [simp]: "val 0 = 0"
  by (simp add: zero_double_def fl_def)

lemma val_plus: "val (a + b) = fl (val a + val b)"
  by (simp add: plus_double_def)

lemma val_minus: "val (a - b) = fl (val a - val b)"
  by (simp add: minus_double_def)

lemma val_times: "val (a * b) = fl (val a * val b)"
  by (simp add: times_double_def)

lemma val_divide: "val (a / b) = fl (val a / val b)"
  by (simp add: divide_double_def)

section \<open>Arithmetic and order of the doubles\<close>


lemma D_nonneg: "0 \<le> x \<Longrightarrow> 0 \<le> D x"
  by (simp add: less_eq_double_def fl_nonneg)

lemma D_val [simp]: "D (val a) = a"
  by (simp add: val_inject [symmetric])

lemma add_zero_double [simp]: "a + 0 = a" "0 + a = a" for a :: double
  by (simp_all add: plus_double_def)

lemma zero_times_double [simp]: "0 * a = 0" for a :: double
  by (simp add: times_double_def zero_double_def)

lemma nonneg_double_iff: "0 \<le> a \<longleftrightarrow> 0 \<le> val a"
  by (simp add: less_eq_double_def)

lemma add_nonneg_double: "0 \<le> a \<Longrightarrow> 0 \<le> b \<Longrightarrow> 0 \<le> a + b" for a b :: double
  by (simp add: nonneg_double_iff val_plus fl_nonneg)

lemma times_nonneg_double: "0 \<le> a \<Longrightarrow> 0 \<le> b \<Longrightarrow> 0 \<le> a * b" for a b :: double
  by (simp add: nonneg_double_iff val_times fl_nonneg)

lemma divide_nonneg_double: "0 \<le> a \<Longrightarrow> 0 \<le> b \<Longrightarrow> 0 \<le> a / b" for a b :: double
  by (simp add: nonneg_double_iff val_divide fl_nonneg)

lemma le_add_nonneg_double: "0 \<le> b \<Longrightarrow> a \<le> a + b" for a b :: double
proof -
  assume "0 \<le> b"
  then have "val a \<le> val a + val b" by (simp add: nonneg_double_iff)
  then have "fl (val a) \<le> fl (val a + val b)" by (rule fl_mono)
  then show ?thesis by (simp add: less_eq_double_def val_plus)
qed

lemma diff_nonneg_double: "b \<le> a \<Longrightarrow> 0 \<le> a - b" for a b :: double
proof -
  assume "b \<le> a"
  then have "0 \<le> val a - val b" by (simp add: less_eq_double_def)
  then show ?thesis by (simp add: nonneg_double_iff val_minus fl_nonneg)
qed

lemma diff_le_double: "0 \<le> b \<Longrightarrow> a - b \<le> a" for a b :: double
proof -
  assume "0 \<le> b"
  then have "val a - val b \<le> val a" by (simp add: nonneg_double_iff)
  then have "fl (val a - val b) \<le> fl (val a)" by (rule fl_mono)
  then show ?thesis by (simp add: less_eq_double_def val_minus)
qed

lemma diff_self_double [simp]: "a - a = 0" for a :: double
  by (simp add: minus_double_def zero_double_def)

text \<open>The roundings that the examples below go through.\<close>

lemma fl_eval_1: "fl (3 / 10) = 5404319552844595 / 18014398509481984"
  by (subst fl_eval [where e = "- 2"]) (simp_all add: roundEven_def Let_def)

lemma fl_eval_2: "fl (7 / 10) = 3152519739159347 / 4503599627370496"
  by (subst fl_eval [where e = "- 1"]) (simp_all add: roundEven_def Let_def)

lemma fl_eval_3: "fl (5) = 5"
  using fl_dyadic [of "5" "0"] by simp

lemma fl_eval_4: "fl (15 / 2) = 15 / 2"
  using fl_dyadic [of "15" "- 1"] by simp

lemma fl_eval_5: "fl (5 / 2) = 5 / 2"
  using fl_dyadic [of "5" "- 1"] by simp

lemma fl_eval_6: "fl (10) = 10"
  using fl_dyadic [of "5" "1"] by simp

lemma fl_eval_7: "fl (1 / 2) = 1 / 2"
  using fl_dyadic [of "1" "- 1"] by simp

lemma fl_eval_8: "fl (15 / 4) = 15 / 4"
  using fl_dyadic [of "15" "- 2"] by simp

lemma fl_eval_9: "fl (45 / 4) = 45 / 4"
  using fl_dyadic [of "45" "- 2"] by simp

lemma fl_eval_10: "fl (8) = 8"
  using fl_dyadic [of "1" "3"] by simp

lemma fl_eval_11: "fl (100) = 100"
  using fl_dyadic [of "25" "2"] by simp

lemma fl_eval_12: "fl (195 / 2) = 195 / 2"
  using fl_dyadic [of "195" "- 1"] by simp

lemma fl_eval_13: "fl (57 / 100) = 5134103575202365 / 9007199254740992"
  by (subst fl_eval [where e = "- 1"]) (simp_all add: roundEven_def Let_def)

lemma fl_eval_14: "fl (77011553628035475 / 18014398509481984) = 4813222101752217 / 1125899906842624"
  by (subst fl_eval [where e = "2"]) (simp_all add: roundEven_def Let_def)

lemma fl_eval_15: "fl (13257471403071897 / 1125899906842624) = 1657183925383987 / 140737488355328"
  by (subst fl_eval [where e = "3"]) (simp_all add: roundEven_def Let_def)

lemma fl_eval_16: "fl (471 / 40) = 6628735701535949 / 562949953421312"
  by (subst fl_eval [where e = "3"]) (simp_all add: roundEven_def Let_def)

lemma fl_eval_17: "fl (33 / 100) = 5944751508129055 / 18014398509481984"
  by (subst fl_eval [where e = "- 2"]) (simp_all add: roundEven_def Let_def)

lemma fl_eval_18: "fl (89171272621935825 / 36028797018963968) = 5573204538870989 / 2251799813685248"
  by (subst fl_eval [where e = "1"]) (simp_all add: roundEven_def Let_def)

lemma fl_eval_19: "fl (22461703141510349 / 2251799813685248) = 5615425785377587 / 562949953421312"
  by (subst fl_eval [where e = "3"]) (simp_all add: roundEven_def Let_def)

lemma fl_eval_20: "fl (5615425785377587 / 1125899906842624) = 5615425785377587 / 1125899906842624"
  using fl_dyadic [of "5615425785377587" "- 50"] by simp

lemma fl_eval_21: "fl (16846277356132761 / 1125899906842624) = 2105784669516595 / 140737488355328"
  by (subst fl_eval [where e = "3"]) (simp_all add: roundEven_def Let_def)

lemma fl_eval_22: "fl (1657183925383987 / 140737488355328) = 1657183925383987 / 140737488355328"
  using fl_dyadic [of "1657183925383987" "- 47"] by simp

lemma fl_eval_23: "fl (2105784669516595 / 140737488355328) = 2105784669516595 / 140737488355328"
  using fl_dyadic [of "2105784669516595" "- 47"] by simp

lemma fl_eval_24: "fl (1197 / 80) = 8423138678066381 / 562949953421312"
  by (subst fl_eval [where e = "3"]) (simp_all add: roundEven_def Let_def)

lemma fl_eval_25: "fl (5615425785377587 / 562949953421312) = 5615425785377587 / 562949953421312"
  using fl_dyadic [of "5615425785377587" "- 49"] by simp

lemma fl_eval_26: "fl (3 / 4) = 3 / 4"
  using fl_dyadic [of "3" "- 2"] by simp

lemma fl_eval_27: "fl (1) = 1"
  using fl_dyadic [of "1" "0"] by simp

lemma fl_eval_28: "fl (1 / 4) = 1 / 4"
  using fl_dyadic [of "1" "- 2"] by simp

lemma fl_eval_29: "fl (3 / 2) = 3 / 2"
  using fl_dyadic [of "3" "- 1"] by simp

lemma fl_eval_30: "fl (3 / 8) = 3 / 8"
  using fl_dyadic [of "3" "- 3"] by simp

lemma fl_eval_31: "fl (20) = 20"
  using fl_dyadic [of "5" "2"] by simp

lemma fl_eval_32: "fl (185 / 2) = 185 / 2"
  using fl_dyadic [of "185" "- 1"] by simp

lemma fl_eval_33: "fl (93) = 93"
  using fl_dyadic [of "93" "0"] by simp

lemma fl_eval_34: "fl (3) = 3"
  using fl_dyadic [of "3" "0"] by simp

lemma fl_eval_35: "fl (6) = 6"
  using fl_dyadic [of "3" "1"] by simp

lemma fl_eval_36: "fl (3 / 20) = 5404319552844595 / 36028797018963968"
  by (subst fl_eval [where e = "- 3"]) (simp_all add: roundEven_def Let_def)

lemma fl_eval_37: "fl (30624477466119373 / 36028797018963968) = 7656119366529843 / 9007199254740992"
  by (subst fl_eval [where e = "- 1"]) (simp_all add: roundEven_def Let_def)

lemma fl_eval_38: "fl (22968358099589529 / 18014398509481984) = 2871044762448691 / 2251799813685248"
  by (subst fl_eval [where e = "0"]) (simp_all add: roundEven_def Let_def)

lemma fl_eval_39: "fl (16381843644560179 / 2251799813685248) = 4095460911140045 / 562949953421312"
  by (subst fl_eval [where e = "2"]) (simp_all add: roundEven_def Let_def)

lemma fl_eval_40: "fl (4095460911140045 / 1688849860263936) = 5460614548186727 / 2251799813685248"
  by (subst fl_eval [where e = "1"]) (simp_all add: roundEven_def Let_def)

lemma fl_eval_41: "fl (27303072740933635 / 562949953421312) = 6825768185233409 / 140737488355328"
  by (subst fl_eval [where e = "5"]) (simp_all add: roundEven_def Let_def)

lemma fl_eval_42: "fl (7247980650299391 / 140737488355328) = 7247980650299391 / 140737488355328"
  using fl_dyadic [of "7247980650299391" "- 47"] by simp

lemma fl_eval_43: "fl (51) = 51"
  using fl_dyadic [of "51" "0"] by simp

lemma fl_eval_44: "fl (9 / 10) = 8106479329266893 / 9007199254740992"
  by (subst fl_eval [where e = "- 1"]) (simp_all add: roundEven_def Let_def)

lemma fl_eval_45: "fl (900719925474099 / 9007199254740992) = 900719925474099 / 9007199254740992"
  using fl_dyadic [of "900719925474099" "- 53"] by simp

lemma fl_eval_46: "fl (2702159776422297 / 18014398509481984) = 2702159776422297 / 18014398509481984"
  using fl_dyadic [of "2702159776422297" "- 54"] by simp

lemma fl_eval_47: "fl (56745355304868249 / 18014398509481984) = 7093169413108531 / 2251799813685248"
  by (subst fl_eval [where e = "1"]) (simp_all add: roundEven_def Let_def)

lemma fl_eval_48: "fl (2) = 2"
  using fl_dyadic [of "1" "1"] by simp

lemma fl_eval_49: "fl (7093169413108531 / 4503599627370496) = 7093169413108531 / 4503599627370496"
  using fl_dyadic [of "7093169413108531" "- 52"] by simp

lemma fl_eval_50: "fl (35465847065542655 / 1125899906842624) = 63 / 2"
  by (subst fl_eval [where e = "4"]) (simp_all add: roundEven_def Let_def)

lemma fl_eval_51: "fl (137 / 2) = 137 / 2"
  using fl_dyadic [of "137" "- 1"] by simp

lemma fl_eval_52: "fl (69) = 69"
  using fl_dyadic [of "69" "0"] by simp

lemma fl_eval_53: "fl (68) = 68"
  using fl_dyadic [of "17" "2"] by simp

lemma fl_eval_54: "fl (121 / 10) = 6811694436397875 / 562949953421312"
  by (subst fl_eval [where e = "3"]) (simp_all add: roundEven_def Let_def)

lemma fl_eval_55: "fl (113 / 10) = 3180667236830413 / 281474976710656"
  by (subst fl_eval [where e = "3"]) (simp_all add: roundEven_def Let_def)

lemma fl_eval_56: "fl (23 / 2) = 23 / 2"
  using fl_dyadic [of "23" "- 1"] by simp

lemma fl_eval_57: "fl (450359962737049 / 562949953421312) = 450359962737049 / 562949953421312"
  using fl_dyadic [of "450359962737049" "- 49"] by simp

lemma fl_eval_58: "fl (- (5 / 2)) = - (5 / 2)"
  using fl_dyadic [of "- 5" "- 1"] by simp

lemma fl_eval_59: "fl (8219069319951155 / 562949953421312) = 8219069319951155 / 562949953421312"
  using fl_dyadic [of "8219069319951155" "- 49"] by simp

lemma fl_eval_60: "fl (21 / 2) = 21 / 2"
  using fl_dyadic [of "21" "- 1"] by simp

lemma fl_eval_61: "fl (11) = 11"
  using fl_dyadic [of "11" "0"] by simp

lemma fl_eval_62: "fl (900719925474099 / 562949953421312) = 900719925474099 / 562949953421312"
  using fl_dyadic [of "900719925474099" "- 49"] by simp

lemma fl_eval_63: "fl (619244948763443 / 562949953421312) = 619244948763443 / 562949953421312"
  using fl_dyadic [of "619244948763443" "- 49"] by simp

lemma fl_eval_64: "fl (3 / 5) = 5404319552844595 / 9007199254740992"
  by (subst fl_eval [where e = "- 1"]) (simp_all add: roundEven_def Let_def)

lemma fl_eval_65: "fl (2 / 5) = 3602879701896397 / 9007199254740992"
  by (subst fl_eval [where e = "- 2"]) (simp_all add: roundEven_def Let_def)

lemma fl_eval_66: "fl (7 / 20) = 3152519739159347 / 9007199254740992"
  by (subst fl_eval [where e = "- 2"]) (simp_all add: roundEven_def Let_def)

lemma fl_eval_67: "fl (1 / 5) = 3602879701896397 / 18014398509481984"
  by (subst fl_eval [where e = "- 3"]) (simp_all add: roundEven_def Let_def)

lemma fl_eval_68: "fl (11 / 20) = 2476979795053773 / 4503599627370496"
  by (subst fl_eval [where e = "- 1"]) (simp_all add: roundEven_def Let_def)

lemma fl_eval_69: "fl (1 / 10) = 3602879701896397 / 36028797018963968"
  by (subst fl_eval [where e = "- 4"]) (simp_all add: roundEven_def Let_def)

lemma fl_eval_70: "fl (33 / 50) = 5944751508129055 / 9007199254740992"
  by (subst fl_eval [where e = "- 1"]) (simp_all add: roundEven_def Let_def)

lemma fl_eval_71: "fl (49 / 5) = 2758454771764429 / 281474976710656"
  by (subst fl_eval [where e = "3"]) (simp_all add: roundEven_def Let_def)

lemma fl_eval_72: "fl (39 / 5) = 8782019273372467 / 1125899906842624"
  by (subst fl_eval [where e = "2"]) (simp_all add: roundEven_def Let_def)

lemma fl_eval_73: "fl (2251799813685249 / 1125899906842624) = 2251799813685249 / 1125899906842624"
  using fl_dyadic [of "2251799813685249" "- 50"] by simp

lemmas fl_evals =
  fl_eval_1 fl_eval_2 fl_eval_3 fl_eval_4 fl_eval_5 fl_eval_6
  fl_eval_7 fl_eval_8 fl_eval_9 fl_eval_10 fl_eval_11 fl_eval_12
  fl_eval_13 fl_eval_14 fl_eval_15 fl_eval_16 fl_eval_17 fl_eval_18
  fl_eval_19 fl_eval_20 fl_eval_21 fl_eval_22 fl_eval_23 fl_eval_24
  fl_eval_25 fl_eval_26 fl_eval_27 fl_eval_28 fl_eval_29 fl_eval_30
  fl_eval_31 fl_eval_32 fl_eval_33 fl_eval_34 fl_eval_35 fl_eval_36
  fl_eval_37 fl_eval_38 fl_eval_39 fl_eval_40 fl_eval_41 fl_eval_42
  fl_eval_43 fl_eval_44 fl_eval_45 fl_eval_46 fl_eval_47 fl_eval_48
  fl_eval_49 fl_eval_50 fl_eval_51 fl_eval_52 fl_eval_53 fl_eval_54
  fl_eval_55 fl_eval_56 fl_eval_57 fl_eval_58 fl_eval_59 fl_eval_60
  fl_eval_61 fl_eval_62 fl_eval_63 fl_eval_64 fl_eval_65 fl_eval_66
  fl_eval_67 fl_eval_68 fl_eval_69 fl_eval_70 fl_eval_71 fl_eval_72
  fl_eval_73
text \<open>The rules that evaluate a closed expression of doubles.\<close>

lemmas dbl_eval =
  val_inject [symmetric] val_plus val_minus val_times val_divide less_double_def
  less_eq_double_def max_def min_def fl_evals

section \<open>The best action of a solution\<close>

lemma foldl_pickBetter_first_max:
  "\<exists>i \<le> length xs. foldl pickBetter x xs = (x # xs) ! i
     \<and> (\<forall>a \<in> set (x # xs). ev a \<le> ev ((x # xs) ! i))
     \<and> (\<forall>j < i. ev ((x # xs) ! j) < ev ((x # xs) ! i))"
proof (induction xs rule: rev_induct)
  case Nil
  show ?case by simp
next
  case (snoc y ys)
  then obtain i where i: "i \<le> length ys"
    and best: "foldl pickBetter x ys = (x # ys) ! i"
    and mx: "\<forall>a \<in> set (x # ys). ev a \<le> ev ((x # ys) ! i)"
    and fst: "\<forall>j < i. ev ((x # ys) ! j) < ev ((x # ys) ! i)"
    by blast
  have nth_old: "(x # ys @ [y]) ! k = (x # ys) ! k" if "k \<le> length ys" for k
    using that by (metis Cons_eq_appendI length_Cons less_Suc_eq_le nth_append)
  show ?case
  proof (cases "ev y > ev ((x # ys) ! i)")
    case True
    let ?n = "Suc (length ys)"
    have at: "(x # ys @ [y]) ! ?n = y"
      by (metis Cons_eq_appendI length_Cons nth_append_length)
    have step: "foldl pickBetter x (ys @ [y]) = y"
      using True best by (simp add: pickBetter_def)
    have m': "\<forall>a \<in> set (x # ys @ [y]). ev a \<le> ev y"
      using mx True by auto
    have f': "\<forall>j < ?n. ev ((x # ys @ [y]) ! j) < ev y"
    proof (intro allI impI)
      fix j assume "j < ?n"
      then have jl: "j \<le> length ys" by simp
      then have "(x # ys) ! j \<in> set (x # ys)"
        by (metis length_Cons less_Suc_eq_le nth_mem)
      then have "ev ((x # ys) ! j) \<le> ev ((x # ys) ! i)" using mx by blast
      then show "ev ((x # ys @ [y]) ! j) < ev y" using True nth_old [OF jl] by simp
    qed
    show ?thesis
      apply (rule exI [of _ ?n])
      using at step m' f' by simp
  next
    case False
    have step: "foldl pickBetter x (ys @ [y]) = (x # ys) ! i"
      using False best by (simp add: pickBetter_def)
    have m': "\<forall>a \<in> set (x # ys @ [y]). ev a \<le> ev ((x # ys) ! i)"
      using mx False by auto
    have f': "\<forall>j < i. ev ((x # ys @ [y]) ! j) < ev ((x # ys @ [y]) ! i)"
    proof (intro allI impI)
      fix j assume ji: "j < i"
      then have "j \<le> length ys" using i by simp
      then show "ev ((x # ys @ [y]) ! j) < ev ((x # ys @ [y]) ! i)"
        using fst ji nth_old [of j] nth_old [OF i] by simp
    qed
    show ?thesis
      apply (rule exI [of _ i])
      using i step m' f' nth_old [OF i] by simp
  qed
qed

text \<open>
  C1 (as the code has it). For a solution with a non-empty actions list, getBestAction
  returns an action of the list with the maximum ev; when several actions are tied for
  the maximum ev it returns the one that comes first in the list: every action before
  the returned one has a strictly smaller ev. The frequency plays no part.
\<close>

theorem getBestAction_first_max:
  assumes "actions solution \<noteq> []"
  shows "\<exists>i < length (actions solution).
           getBestAction solution = Inr (actions solution ! i)
         \<and> (\<forall>a \<in> set (actions solution). ev a \<le> ev (actions solution ! i))
         \<and> (\<forall>j < i. ev (actions solution ! j) < ev (actions solution ! i))"
proof -
  from assms obtain x xs where xs: "actions solution = x # xs"
    by (cases "actions solution") auto
  from foldl_pickBetter_first_max [of xs x] obtain i where
    "i \<le> length xs" "foldl pickBetter x xs = (x # xs) ! i"
    "\<forall>a \<in> set (x # xs). ev a \<le> ev ((x # xs) ! i)"
    "\<forall>j < i. ev ((x # xs) ! j) < ev ((x # xs) ! i)"
    by blast
  then show ?thesis
    unfolding getBestAction_def xs by (intro exI [of _ i]) simp
qed

theorem getBestAction_first_max_witness:
  "actions scenario1 \<noteq> [] \<and>
   (\<exists>i < length (actions scenario1).
       getBestAction scenario1 = Inr (actions scenario1 ! i)
     \<and> (\<forall>a \<in> set (actions scenario1). ev a \<le> ev (actions scenario1 ! i))
     \<and> (\<forall>j < i. ev (actions scenario1 ! j) < ev (actions scenario1 ! i)))"
proof -
  have h: "actions scenario1 \<noteq> []" by (simp add: scenario1_def)
  show ?thesis using h getBestAction_first_max [OF h] by blast
qed

text \<open>
  C1 as the specification states it fails: in \<open>tiedSolution\<close> check and bet are tied at
  EV 5 and bet has the higher frequency (0.7 against 0.3), yet getBestAction returns
  the check, the first of the two.
\<close>

theorem getBestAction_tie_counterexample:
  "getBestAction tiedSolution = Inr \<lparr>action = Check, size_pot = None, frequency = D 0.3, ev = D 5\<rparr>
   \<and> ev (actions tiedSolution ! 1) = ev (actions tiedSolution ! 0)
   \<and> frequency (actions tiedSolution ! 0) < frequency (actions tiedSolution ! 1)"
  by (simp add: getBestAction_def tiedSolution_def pickBetter_def dbl_eval)

section \<open>Applying an action\<close>

lemma getNextStreet_simps:
  "getNextStreet Preflop = Flop" "getNextStreet Flop = Turn"
  "getNextStreet Turn = River" "getNextStreet River = River"
  by (simp_all add: getNextStreet_def indexOf_def streetOrder_def)

lemma processAction_actionHistory:
  "actionHistory (processAction state a amount) =
     actionHistory state @ [\<lparr>pa_type = a, pa_amount = amount, pa_street = street state\<rparr>]"
  by (simp add: processAction_def Let_def split: option.splits)

lemma processAction_players: "players (processAction state a amount) = players state"
  by (simp add: processAction_def Let_def split: option.splits)

lemma processAction_pot:
  "pot (processAction state a amount) =
     (if a = Bet \<or> a = Raise then pot state + betAmountOf amount (pot state)
      else if a = Call then (case amount of Some x \<Rightarrow> pot state + x | None \<Rightarrow> pot state)
      else pot state)"
  by (simp add: processAction_def Let_def split: option.splits)

text \<open>
  C2 as the specification states it fails. At the start of the hand no bet is
  outstanding, so a call is not permitted; processAction applies it all the same: the
  pot grows from 7.5 to 10, the street moves to the turn and the call is recorded.
\<close>

theorem processAction_accepts_illegal_counterexample:
  "\<not> spec_permitted False Call
   \<and> processAction createInitialGameState Call (Some (D 2.5)) \<noteq> createInitialGameState
   \<and> pot (processAction createInitialGameState Call (Some (D 2.5))) = D 10
   \<and> street (processAction createInitialGameState Call (Some (D 2.5))) = Turn
   \<and> length (actionHistory (processAction createInitialGameState Call (Some (D 2.5)))) = 1"
proof -
  have "pot (processAction createInitialGameState Call (Some (D 2.5))) = D 10"
    by (simp add: processAction_pot createInitialGameState_def dbl_eval)
  moreover have "pot createInitialGameState \<noteq> D 10"
    by (simp add: createInitialGameState_def dbl_eval)
  moreover have "street (processAction createInitialGameState Call (Some (D 2.5))) = Turn"
    by (simp add: processAction_def createInitialGameState_def getNextStreet_simps dbl_eval)
  moreover have
    "length (actionHistory (processAction createInitialGameState Call (Some (D 2.5)))) = 1"
    by (simp add: processAction_actionHistory createInitialGameState_def)
  ultimately show ?thesis by (auto simp: spec_permitted_def)
qed

text \<open>
  C2 (as the code has it). processAction checks no legality and has no failing branch:
  for every game state, action type and amount, whether or not the action is permitted
  by the betting state, it returns a successor state that differs from the input, with
  the action recorded as one more entry of the history.
\<close>

theorem processAction_never_rejects:
  "processAction state a amount \<noteq> state
   \<and> length (actionHistory (processAction state a amount)) = Suc (length (actionHistory state))
   \<and> pa_type (last (actionHistory (processAction state a amount))) = a"
proof -
  have len: "length (actionHistory (processAction state a amount))
               = Suc (length (actionHistory state))"
    by (simp add: processAction_actionHistory)
  then have "processAction state a amount \<noteq> state" by auto
  with len show ?thesis by (simp add: processAction_actionHistory)
qed

theorem processAction_never_rejects_witness:
  "\<not> spec_permitted False Fold
   \<and> processAction createInitialGameState Fold None \<noteq> createInitialGameState
   \<and> length (actionHistory (processAction createInitialGameState Fold None)) = 1
   \<and> pa_type (last (actionHistory (processAction createInitialGameState Fold None))) = Fold"
  using processAction_never_rejects [of createInitialGameState Fold None]
  by (simp add: spec_permitted_def createInitialGameState_def)

text \<open>
  C3 as the specification states it fails. A raise of 0.5 into the pot of 7.5 adds
  3.75 to the pot (half the pot), not the amount 0.5, and the stacks of both players
  are what they were: the acting player still has 97.5.
\<close>

theorem processAction_raise_stack_counterexample:
  "pot (processAction createInitialGameState Raise (Some (D 0.5))) = D 11.25
   \<and> pot createInitialGameState + D 0.5 = D 8
   \<and> map stack (players createInitialGameState) = [D 100, D 97.5]
   \<and> map stack (players (processAction createInitialGameState Raise (Some (D 0.5)))) = [D 100, D 97.5]"
  by (simp add: processAction_pot processAction_players betAmountOf_def
      createInitialGameState_def dbl_eval)

text \<open>
  The product and the sum are the program's, in binary64. A bet of 0.57 into the pot
  of 7.5 leaves the double just below 11.775 in the pot, and a bet of 0.33 followed by
  a bet of 0.5 the double just below 14.9625, where exact arithmetic would give 11.775
  and 14.9625.
\<close>

lemma processAction_pot_rounding:
  "pot (processAction createInitialGameState Bet (Some (D 0.57))) = D (1657183925383987 / 2 ^ 47)
   \<and> D (1657183925383987 / 2 ^ 47) < D 11.775
   \<and> pot (processAction (processAction createInitialGameState Bet (Some (D 0.33))) Bet
            (Some (D 0.5))) = D (2105784669516595 / 2 ^ 47)
   \<and> D (2105784669516595 / 2 ^ 47) < D 14.9625"
  by (simp add: processAction_pot betAmountOf_def createInitialGameState_def dbl_eval)

text \<open>
  C3 (as the code has it). A bet of size \<open>s\<close> makes the pot \<open>pot + s * pot\<close>, and so does
  a raise of size \<open>s\<close>: the amount of a raise is read as a fraction of the pot as well.
  The product and the sum are the program's binary64 operations, each rounded to the
  nearest double. No action changes the players, so every stack stays as it was.
\<close>

theorem processAction_bet_raise_pot:
  "pot (processAction state Bet (Some s)) = pot state + s * pot state
   \<and> pot (processAction state Raise (Some s)) = pot state + s * pot state
   \<and> players (processAction state a amount) = players state"
  by (simp add: processAction_pot processAction_players betAmountOf_def)

theorem processAction_bet_raise_pot_witness:
  "pot (processAction createInitialGameState Bet (Some (D 0.33))) = D 7.5 + D 0.33 * D 7.5
   \<and> pot (processAction createInitialGameState Raise (Some (D 0.33))) = D 7.5 + D 0.33 * D 7.5
   \<and> players (processAction createInitialGameState Bet (Some (D 0.33)))
       = players createInitialGameState
   \<and> pot (processAction createInitialGameState Raise (Some (D 0.57))) = D (1657183925383987 / 2 ^ 47)"
proof -
  have v: "D 7.5 + D 0.57 * D 7.5 = D (1657183925383987 / 2 ^ 47)" by (simp add: dbl_eval)
  have p: "pot createInitialGameState = D 7.5" by (simp add: createInitialGameState_def)
  from processAction_bet_raise_pot [of createInitialGameState "D 0.33" Bet "Some (D 0.33)"]
    processAction_bet_raise_pot [of createInitialGameState "D 0.57" Bet "Some (D 0.33)"]
  show ?thesis unfolding p v by simp
qed

section \<open>The board over one hand\<close>

lemma processAction_fold:
  "street (processAction state Fold amount) = street state"
  "board (processAction state Fold amount) = board state"
  by (simp_all add: processAction_def Let_def split: option.splits)

lemma processAction_flop:
  assumes "street state = Flop" and "a \<noteq> Fold"
  shows "street (processAction state a amount) = Turn"
    and "board (processAction state a amount) = board state @ [parseCard ''3c'']"
  using assms by (simp_all add: processAction_def Let_def getNextStreet_simps split: option.splits)

lemma processAction_turn:
  assumes "street state = Turn" and "a \<noteq> Fold"
  shows "street (processAction state a amount) = River"
    and "board (processAction state a amount) = board state @ [parseCard ''9h'']"
  using assms by (simp_all add: processAction_def Let_def getNextStreet_simps split: option.splits)

text \<open>
  Only the turn and the river have a card to reveal: an action on a preflop state moves
  the street to the flop and leaves the board as it is.
\<close>

lemma processAction_preflop:
  assumes "street state = Preflop" and "a \<noteq> Fold"
  shows "street (processAction state a amount) = Flop"
    and "board (processAction state a amount) = board state"
  using assms by (simp_all add: processAction_def Let_def getNextStreet_simps split: option.splits)

lemma makeAction_gameState:
  "\<not> isHandComplete h \<Longrightarrow> gameState (makeAction h a amount) = processAction (gameState h) a amount"
  by (simp add: makeAction_def Let_def)

lemma makeAction_complete:
  "\<not> isHandComplete h \<Longrightarrow>
   isHandComplete (makeAction h a amount)
     = (a = Fold \<or> street (processAction (gameState h) a amount) = River)"
  by (simp add: makeAction_def Let_def)

lemma makeAction_done: "isHandComplete h \<Longrightarrow> makeAction h a amount = h"
  by (simp add: makeAction_def)

lemma boardLengths_Nil: "boardLengths h [] = [length (board (gameState h))]"
  by (simp add: boardLengths_def)

lemma boardLengths_Cons:
  "boardLengths h ((a, amount) # rest)
     = length (board (gameState h)) # boardLengths (makeAction h a amount) rest"
  by (simp add: boardLengths_def)

lemma boardLengths_complete:
  "isHandComplete h \<Longrightarrow>
   boardLengths h acts = replicate (Suc (length acts)) (length (board (gameState h)))"
proof (induction acts)
  case Nil
  show ?case by (simp add: boardLengths_Nil)
next
  case (Cons x acts)
  obtain a amount where x: "x = (a, amount)" by (cases x)
  show ?case using Cons by (simp add: x boardLengths_Cons makeAction_done)
qed

lemma remdups_adj_stutter: "remdups_adj (x # replicate n x) = [x]"
  using remdups_adj_replicate [of "Suc n" x] by simp

lemma boardLengths_from_turn:
  assumes "\<not> isHandComplete h" and "street (gameState h) = Turn"
    and "length (board (gameState h)) = 4"
  shows "remdups_adj (boardLengths h acts) = 
           (case acts of [] \<Rightarrow> [4] | (a, _) # _ \<Rightarrow> if a = Fold then [4] else [4, 5])"
proof (cases acts)
  case Nil
  then show ?thesis using assms by (simp add: boardLengths_Nil)
next
  case (Cons x rest)
  obtain a amount where x: "x = (a, amount)" by (cases x)
  let ?h = "makeAction h a amount"
  show ?thesis
  proof (cases "a = Fold")
    case True
    have c: "isHandComplete ?h" using assms(1) True by (simp add: makeAction_complete)
    have b: "length (board (gameState ?h)) = 4"
      using assms True by (simp add: makeAction_gameState processAction_fold)
    have "remdups_adj (boardLengths h acts) = [4]"
      unfolding Cons x boardLengths_Cons boardLengths_complete [OF c] b assms(3)
      by (simp add: remdups_adj_stutter)
    then show ?thesis using True by (simp add: Cons x)
  next
    case False
    have c: "isHandComplete ?h"
      using assms False by (simp add: makeAction_complete processAction_turn)
    have b: "length (board (gameState ?h)) = 5"
      using assms False by (simp add: makeAction_gameState processAction_turn)
    have "remdups_adj (boardLengths h acts) = [4, 5]"
      unfolding Cons x boardLengths_Cons boardLengths_complete [OF c] b assms(3)
      using remdups_adj_stutter [of "5::nat" "length rest"] by simp
    then show ?thesis using False by (simp add: Cons x)
  qed
qed

lemma boardLengths_from_flop:
  assumes "\<not> isHandComplete h" and "street (gameState h) = Flop"
    and "length (board (gameState h)) = 3"
  shows "remdups_adj (boardLengths h acts) = 
           (case acts of [] \<Rightarrow> [3]
            | (a, _) # rest \<Rightarrow>
                if a = Fold then [3]
                else (case rest of [] \<Rightarrow> [3, 4]
                      | (b, _) # _ \<Rightarrow> if b = Fold then [3, 4] else [3, 4, 5]))"
proof (cases acts)
  case Nil
  then show ?thesis using assms by (simp add: boardLengths_Nil)
next
  case (Cons x rest)
  obtain a amount where x: "x = (a, amount)" by (cases x)
  let ?h = "makeAction h a amount"
  show ?thesis
  proof (cases "a = Fold")
    case True
    have c: "isHandComplete ?h" using assms(1) True by (simp add: makeAction_complete)
    have b: "length (board (gameState ?h)) = 3"
      using assms True by (simp add: makeAction_gameState processAction_fold)
    have "remdups_adj (boardLengths h acts) = [3]"
      unfolding Cons x boardLengths_Cons boardLengths_complete [OF c] b assms(3)
      by (simp add: remdups_adj_stutter)
    then show ?thesis using True by (simp add: Cons x)
  next
    case False
    have c: "\<not> isHandComplete ?h"
      using assms False by (simp add: makeAction_complete processAction_flop)
    have s: "street (gameState ?h) = Turn"
      using assms False by (simp add: makeAction_gameState processAction_flop)
    have b: "length (board (gameState ?h)) = 4"
      using assms False by (simp add: makeAction_gameState processAction_flop)
    have hd: "hd (boardLengths ?h rest) = 4"
      using b by (cases rest) (auto simp: boardLengths_Nil boardLengths_Cons)
    have ne: "boardLengths ?h rest \<noteq> []" by (simp add: boardLengths_def) (cases rest; auto)
    have "remdups_adj (3 # boardLengths ?h rest) = 3 # remdups_adj (boardLengths ?h rest)"
      using hd ne by (cases "boardLengths ?h rest") auto
    then have "remdups_adj (boardLengths h acts) = 3 # remdups_adj (boardLengths ?h rest)"
      unfolding Cons x boardLengths_Cons assms(3) .
    then show ?thesis
      using False boardLengths_from_turn [OF c s b, of rest]
      by (simp add: Cons x split: list.splits)
  qed
qed

lemma startNewHand_facts:
  "\<not> isHandComplete startNewHand" "street (gameState startNewHand) = Flop"
  "length (board (gameState startNewHand)) = 3"
  by (simp_all add: startNewHand_def createInitialGameState_def)

text \<open>
  C4 (as the code has it). A hand starts on the flop with three board cards. With
  repetitions collapsed, the sequence of board lengths over the states a hand goes
  through is 3, then 4, then 5, or a non-empty prefix of that when the hand has not
  got further or has ended by a fold; it is exactly 3, 4, 5 once two actions other than
  a fold have been made. The flop-to-turn and the turn-to-river transition each append
  exactly one card to the board, and a fold leaves the board as it is.
\<close>

theorem hand_board_lengths:
  "remdups_adj (boardLengths startNewHand acts) \<in> {[3], [3, 4], [3, 4, 5]}
   \<and> (a1 \<noteq> Fold \<and> a2 \<noteq> Fold \<longrightarrow>
        remdups_adj (boardLengths startNewHand ((a1, m1) # (a2, m2) # rest)) = [3, 4, 5])
   \<and> (street state = Flop \<and> a \<noteq> Fold \<longrightarrow>
        street (processAction state a amount) = Turn
        \<and> board (processAction state a amount) = board state @ [parseCard ''3c''])
   \<and> (street state = Turn \<and> a \<noteq> Fold \<longrightarrow>
        street (processAction state a amount) = River
        \<and> board (processAction state a amount) = board state @ [parseCard ''9h''])
   \<and> board (processAction state Fold amount) = board state"
proof (intro conjI)
  note fl = boardLengths_from_flop [OF startNewHand_facts]
  show "remdups_adj (boardLengths startNewHand acts) \<in> {[3], [3, 4], [3, 4, 5]}"
    unfolding fl by (simp split: list.splits prod.splits)
  show "a1 \<noteq> Fold \<and> a2 \<noteq> Fold \<longrightarrow>
        remdups_adj (boardLengths startNewHand ((a1, m1) # (a2, m2) # rest)) = [3, 4, 5]"
    unfolding fl by simp
qed (simp_all add: processAction_fold processAction_flop processAction_turn)

theorem hand_board_lengths_witness:
  "boardLengths startNewHand [(Check, None), (Bet, Some (D 0.5)), (Check, None)] = [3, 4, 5, 5]
   \<and> remdups_adj (boardLengths startNewHand [(Check, None), (Bet, Some (D 0.5)), (Check, None)])
       = [3, 4, 5]
   \<and> remdups_adj (boardLengths startNewHand [(Check, None), (Fold, None)]) = [3, 4]
   \<and> board (processAction createInitialGameState Check None)
       = board createInitialGameState @ [parseCard ''3c'']"
proof -
  have h: "Check \<noteq> Fold \<and> Bet \<noteq> Fold" by simp
  have f: "street createInitialGameState = Flop \<and> Check \<noteq> Fold"
    by (simp add: createInitialGameState_def)
  note t = hand_board_lengths [of "[(Check, None), (Fold, None)]" Check Bet None "Some (D 0.5)"
      "[(Check, None)]" createInitialGameState Check None]
  have l: "boardLengths startNewHand [(Check, None), (Bet, Some (D 0.5)), (Check, None)] = [3, 4, 5, 5]"
    by (simp add: boardLengths_def makeAction_def startNewHand_def processAction_def
        createInitialGameState_def getNextStreet_simps Let_def)
  have l2: "remdups_adj (boardLengths startNewHand [(Check, None), (Fold, None)]) = [3, 4]"
    by (simp add: boardLengths_def makeAction_def startNewHand_def processAction_def
        createInitialGameState_def getNextStreet_simps Let_def)
  show ?thesis using t h f l l2 by simp
qed

text \<open>
  C4 as the specification states it fails: a hand never shows an empty board. Its
  first state is on the flop with three cards, so a hand of two checks goes through the
  board lengths 3, 4, 5, which is not a prefix of 0, 3, 4, 5.
\<close>

theorem hand_starts_on_flop_counterexample:
  "boardLengths startNewHand [(Check, None), (Check, None)] = [3, 4, 5]
   \<and> \<not> prefix [3, 4, 5] [0, 3, 4, 5 :: nat]
   \<and> street createInitialGameState = Flop"
  by (simp add: boardLengths_def makeAction_def startNewHand_def processAction_def
        createInitialGameState_def getNextStreet_simps Let_def)


section \<open>The pot over one hand\<close>

lemma processAction_pot_step:
  assumes "0 \<le> pot state" and "\<forall>x. amount = Some x \<longrightarrow> 0 < x"
  shows "pot state \<le> pot (processAction state a amount)"
proof -
  have add: "pot state \<le> pot state + x" if "0 \<le> x" for x
    using that by (rule le_add_nonneg_double)
  have mul: "0 \<le> x * pot state" if "0 < x" for x
    using that assms(1) by (intro times_nonneg_double) simp_all
  show ?thesis
    using assms(2) add mul
    by (auto simp: processAction_pot betAmountOf_def less_imp_le split: option.splits)
qed

lemma makeAction_pot_step:
  assumes "0 \<le> pot (gameState h)" and "\<forall>x. amount = Some x \<longrightarrow> 0 < x"
  shows "pot (gameState h) \<le> pot (gameState (makeAction h a amount))"
proof (cases "isHandComplete h")
  case True
  then show ?thesis by (simp add: makeAction_done)
next
  case False
  then show ?thesis
    using processAction_pot_step [OF assms] by (simp add: makeAction_gameState)
qed

lemma handStates_hd: "\<exists>rest. handStates h acts = h # rest"
  by (cases acts) auto

lemma handStates_pots_sorted:
  assumes "0 \<le> pot (gameState h)"
    and "\<forall>(a, m) \<in> set acts. \<forall>x. m = Some x \<longrightarrow> 0 < x"
  shows "sorted (map (\<lambda>h'. pot (gameState h')) (handStates h acts))"
  using assms
proof (induction acts arbitrary: h)
  case Nil
  show ?case by simp
next
  case (Cons x acts)
  obtain a m where x: "x = (a, m)" by (cases x)
  let ?h = "makeAction h a m"
  have m: "\<forall>y. m = Some y \<longrightarrow> 0 < y" using Cons.prems(2) by (simp add: x)
  have step: "pot (gameState h) \<le> pot (gameState ?h)"
    by (rule makeAction_pot_step [OF Cons.prems(1) m])
  then have "0 \<le> pot (gameState ?h)" using Cons.prems(1) by (rule order_trans [rotated])
  then have ih: "sorted (map (\<lambda>h'. pot (gameState h')) (handStates ?h acts))"
    using Cons.prems(2) by (intro Cons.IH) simp_all
  obtain rest where r: "handStates ?h acts = ?h # rest" using handStates_hd by blast
  show ?case using ih step unfolding x handStates.simps r by auto
qed

text \<open>
  C8. In a game state whose pot is non-negative, as the data model requires, an action
  whose amount, when present, is positive never lowers the pot. Hence over one hand,
  from its first state on and through any sequence of submitted actions with positive
  amounts, the pots of the successive states are in non-decreasing order.
\<close>

theorem processAction_pot_mono:
  "(0 \<le> pot state \<and> (\<forall>x. amount = Some x \<longrightarrow> 0 < x)
      \<longrightarrow> pot state \<le> pot (processAction state a amount))
   \<and> ((\<forall>(a, m) \<in> set acts. \<forall>x. m = Some x \<longrightarrow> 0 < x)
      \<longrightarrow> sorted (map (\<lambda>h. pot (gameState h)) (handStates startNewHand acts)))"
proof (intro conjI impI)
  assume "0 \<le> pot state \<and> (\<forall>x. amount = Some x \<longrightarrow> 0 < x)"
  then show "pot state \<le> pot (processAction state a amount)"
    using processAction_pot_step by blast
next
  assume a: "\<forall>(a, m) \<in> set acts. \<forall>x. m = Some x \<longrightarrow> 0 < x"
  have "0 \<le> pot (gameState startNewHand)"
    by (simp add: startNewHand_def createInitialGameState_def D_nonneg)
  then show "sorted (map (\<lambda>h. pot (gameState h)) (handStates startNewHand acts))"
    using a by (rule handStates_pots_sorted)
qed

theorem processAction_pot_mono_witness:
  "0 \<le> pot createInitialGameState \<and> (0::double) < D 0.5
   \<and> pot createInitialGameState \<le> pot (processAction createInitialGameState Bet (Some (D 0.5)))
   \<and> map (\<lambda>h. pot (gameState h)) (handStates startNewHand [(Bet, Some (D 0.5)), (Check, None)])
       = [D 7.5, D 11.25, D 11.25]
   \<and> sorted (map (\<lambda>h. pot (gameState h))
               (handStates startNewHand [(Bet, Some (D 0.5)), (Check, None)]))"
proof -
  have h1: "0 \<le> pot createInitialGameState"
    by (simp add: createInitialGameState_def D_nonneg)
  have h2: "\<forall>x. Some (D 0.5) = Some x \<longrightarrow> 0 < x" by (auto simp: dbl_eval)
  have h3: "\<forall>(a, m) \<in> set [(Bet, Some (D 0.5)), (Check, None)]. \<forall>x. m = Some x \<longrightarrow> 0 < x"
    by (simp add: dbl_eval)
  have h4: "(0::double) < D 0.5" by (simp add: dbl_eval)
  have p: "map (\<lambda>h. pot (gameState h)) (handStates startNewHand [(Bet, Some (D 0.5)), (Check, None)])
       = [D 7.5, D 11.25, D 11.25]"
    by (simp add: makeAction_def startNewHand_def processAction_def betAmountOf_def
        createInitialGameState_def getNextStreet_simps Let_def dbl_eval)
  from processAction_pot_mono [of createInitialGameState "Some (D 0.5)" Bet
      "[(Bet, Some (D 0.5)), (Check, None)]"] h1 h2 h3
  have "pot createInitialGameState \<le> pot (processAction createInitialGameState Bet (Some (D 0.5)))"
    and "sorted (map (\<lambda>h. pot (gameState h))
               (handStates startNewHand [(Bet, Some (D 0.5)), (Check, None)]))"
    by blast+
  with h1 h4 p show ?thesis by (intro conjI)
qed

section \<open>The hand score\<close>

lemma fold_evLoss: "fold (\<lambda>d total. total + evLoss d) ds acc = foldl (+) acc (map evLoss ds)"
  by (induction ds arbitrary: acc) simp_all

lemma evLoss_spec_loss: "evLoss = spec_loss"
  by (rule ext) (simp add: evLoss_def spec_loss_def)

lemma evLoss_nonneg:
  assumes "\<not> d_isBlunder d \<longrightarrow> gtoFrequency d \<le> D 1"
  shows "0 \<le> evLoss d"
proof (cases "d_isBlunder d")
  case True
  then show ?thesis by (simp add: evLoss_def D_nonneg)
next
  case False
  then have "0 \<le> D 1 - gtoFrequency d" using assms by (intro diff_nonneg_double) simp
  then have "0 \<le> (D 1 - gtoFrequency d) * D 1.5"
    by (rule times_nonneg_double) (simp add: D_nonneg)
  then show ?thesis using False by (simp add: evLoss_def)
qed

lemma foldl_plus_nonneg:
  fixes acc :: double
  shows "0 \<le> acc \<Longrightarrow> \<forall>x \<in> set xs. 0 \<le> x \<Longrightarrow> 0 \<le> foldl (+) acc xs"
  by (induction xs arbitrary: acc) (simp_all add: add_nonneg_double)

lemma Math_round_100: "Math_round (D 100) = D 100"
  by (simp add: Math_round_def dbl_eval)

text \<open>
  The code bounds the score from below only (\<^verbatim>\<open>Math.max(0, ...)\<close>). A frequency above
  1, which no solution has, would make a loss negative and the score exceed 100.
\<close>

lemma calculateScore_above_100: "calculateScore [callDecision\<lparr>gtoFrequency := D 2\<rparr>] = D 130"
proof -
  have e: "fl 1 = 1" "fl 2 = 2" "fl (- 1) = - 1" "fl (3 / 2) = 3 / 2" "fl (- (3 / 2)) = - (3 / 2)"
    "fl 20 = 20" "fl (- 30) = - 30" "fl 100 = 100" "fl 130 = 130"
    using fl_dyadic [of 1 0] fl_dyadic [of 1 1] fl_dyadic [of "- 1" 0] fl_dyadic [of 3 "- 1"]
      fl_dyadic [of "- 3" "- 1"] fl_dyadic [of 5 2] fl_dyadic [of "- 15" 1] fl_dyadic [of 25 2]
      fl_dyadic [of 65 1]
    by simp_all
  show ?thesis
    by (simp add: calculateScore_def evLoss_def callDecision_def Math_round_def
        val_inject [symmetric] val_plus val_minus val_times val_divide less_eq_double_def
        max_def e)
qed

text \<open>
  The arithmetic is the program's: for two blunders and one decision of frequency
  0.15 the value before \<^verbatim>\<open>Math.round\<close> is the double just below 51.5 and the score
  is 51, where exact arithmetic would give 51.5 and the score 52.
\<close>

lemma calculateScore_below_half:
  "calculateScore [blunderDecision, blunderDecision, rareDecision] = D 51"
  by (simp add: calculateScore_def evLoss_def blunderDecision_def rareDecision_def
      Math_round_def dbl_eval)

text \<open>
  C5 (as the code has it). For every decision list in which every decision that is no
  blunder has a frequency of at most 1 (frequencies are probabilities), calculateScore
  returns the score of the specification (per-decision loss 3.0 for a blunder and
  \<open>(1 - gtoFrequency) * 1.5\<close> otherwise, averaged, times 20, subtracted from 100, clamped
  to \<open>[0, 100]\<close>, all in the program's binary64 arithmetic) rounded to the nearest integer
  by \<^verbatim>\<open>Math.round\<close>; for the empty list it returns exactly 100.
\<close>

theorem calculateScore_rounds_spec_score:
  assumes "\<forall>d \<in> set ds. \<not> d_isBlunder d \<longrightarrow> gtoFrequency d \<le> D 1"
  shows "calculateScore ds = Math_round (spec_calculateScore ds)
         \<and> calculateScore [] = D 100"
proof -
  have empty: "calculateScore [] = D 100" by (simp add: calculateScore_def)
  show ?thesis
  proof (cases "ds = []")
    case True
    then show ?thesis using empty by (simp add: spec_calculateScore_def Math_round_100)
  next
    case False
    define total where "total = foldl (+) 0 (map evLoss ds)"
    define score where "score = D 100 - (total / D (real (length ds))) * D 20"
    have "\<forall>x \<in> set (map evLoss ds). 0 \<le> x" using assms by (auto intro: evLoss_nonneg)
    then have "0 \<le> total" unfolding total_def by (intro foldl_plus_nonneg) simp_all
    then have "0 \<le> total / D (real (length ds))"
      by (rule divide_nonneg_double) (simp add: D_nonneg)
    then have "0 \<le> (total / D (real (length ds))) * D 20"
      by (rule times_nonneg_double) (simp add: D_nonneg)
    then have "score \<le> D 100" unfolding score_def by (rule diff_le_double)
    moreover have "0 \<le> D 100" by (simp add: D_nonneg)
    ultimately have "max 0 score \<le> D 100" by simp
    then have clamp: "min (D 100) (max 0 score) = max 0 score" by (rule min_absorb2)
    have "calculateScore ds = Math_round (max 0 score)"
      using False by (simp add: calculateScore_def fold_evLoss total_def score_def Let_def)
    moreover have "spec_calculateScore ds = min (D 100) (max 0 score)"
      using False
      by (simp add: spec_calculateScore_def evLoss_spec_loss [symmetric] total_def score_def)
    ultimately show ?thesis using empty clamp by simp
  qed
qed

theorem calculateScore_rounds_spec_score_witness:
  "gtoFrequency callDecision \<le> D 1
   \<and> calculateScore [callDecision] = Math_round (spec_calculateScore [callDecision])
   \<and> calculateScore [callDecision] = D 93"
proof -
  have f: "gtoFrequency callDecision \<le> D 1" by (simp add: callDecision_def dbl_eval)
  then have h: "\<forall>d \<in> set [callDecision]. \<not> d_isBlunder d \<longrightarrow> gtoFrequency d \<le> D 1"
    by simp
  have s: "spec_calculateScore [callDecision] = D 92.5"
    by (simp add: spec_calculateScore_def spec_loss_def callDecision_def dbl_eval)
  have r: "Math_round (D 92.5) = D 93" by (simp add: Math_round_def dbl_eval)
  from calculateScore_rounds_spec_score [OF h]
  have c: "calculateScore [callDecision] = Math_round (spec_calculateScore [callDecision])"
    by (rule conjunct1)
  have "calculateScore [callDecision] = D 93" unfolding c s r ..
  with f c show ?thesis by (intro conjI)
qed

text \<open>
  C5 as the specification states it fails: the code rounds. For the single decision
  \<open>callDecision\<close> the clamped value is 92.5 and calculateScore returns 93.
\<close>

theorem calculateScore_unrounded_counterexample:
  "spec_calculateScore [callDecision] = D 92.5 \<and> calculateScore [callDecision] = D 93
   \<and> D 92.5 \<noteq> D 93"
  by (simp add: spec_calculateScore_def spec_loss_def calculateScore_def evLoss_def
      callDecision_def Math_round_def dbl_eval)

text \<open>
  C6 as the specification states it fails: for one blunder and one decision of
  frequency 0.9 the value before rounding is 68.5, and \<^verbatim>\<open>Math.round\<close> takes a half
  upwards: the score is 69, not 68.
\<close>

theorem calculateScore_two_decisions_counterexample:
  "d_isBlunder blunderDecision \<and> \<not> d_isBlunder nearOptimalDecision
   \<and> gtoFrequency nearOptimalDecision = D 0.9
   \<and> calculateScore [blunderDecision, nearOptimalDecision] = D 69
   \<and> calculateScore [blunderDecision, nearOptimalDecision] \<noteq> D 68"
  by (simp add: calculateScore_def evLoss_def blunderDecision_def nearOptimalDecision_def
      Math_round_def dbl_eval)

text \<open>
  C6 (as the code has it). For a list of exactly two decisions, one a blunder and one
  no blunder with gtoFrequency 0.9, in either order, calculateScore returns 69: the
  value \<open>100 - ((3.0 + 0.15) / 2) * 20 = 68.5\<close> rounded with a half upwards.
\<close>

theorem calculateScore_two_decisions:
  assumes "d_isBlunder d1" and "\<not> d_isBlunder d2" and "gtoFrequency d2 = D 0.9"
  shows "calculateScore [d1, d2] = D 69 \<and> calculateScore [d2, d1] = D 69"
proof -
  have l1: "evLoss d1 = D 3" using assms(1) by (simp add: evLoss_def)
  have l2: "evLoss d2 = (D 1 - D 0.9) * D 1.5" using assms(2) by (simp add: evLoss_def assms(3))
  show ?thesis by (simp add: calculateScore_def l1 l2 Math_round_def dbl_eval)
qed

theorem calculateScore_two_decisions_witness:
  "d_isBlunder blunderDecision \<and> \<not> d_isBlunder nearOptimalDecision
   \<and> gtoFrequency nearOptimalDecision = D 0.9
   \<and> calculateScore [blunderDecision, nearOptimalDecision] = D 69
   \<and> calculateScore [nearOptimalDecision, blunderDecision] = D 69"
proof -
  have h1: "d_isBlunder blunderDecision" by (simp add: blunderDecision_def)
  have h2: "\<not> d_isBlunder nearOptimalDecision" by (simp add: nearOptimalDecision_def)
  have h3: "gtoFrequency nearOptimalDecision = D 0.9" by (simp add: nearOptimalDecision_def)
  show ?thesis using h1 h2 h3 calculateScore_two_decisions [OF h1 h2 h3] by simp
qed

section \<open>Matching a board to a stored solution\<close>







section \<open>Blunders\<close>




text \<open>
  The gap is the program's subtraction, in binary64: with a best EV of 9.8 and a chosen
  EV of 7.8 it is the double next above 2, and the action is a blunder.
\<close>

lemma isBlunder_gap_above_two:
  "D 9.8 - D 7.8 = D (2251799813685249 / 2 ^ 50) \<and> D 2 < D 9.8 - D 7.8
   \<and> isBlunder (scenario4\<lparr>actions := [\<lparr>action = Raise, size_pot = Some (D 0.66),
                                      frequency = D 0.25, ev = D 9.8\<rparr>]\<rparr>)
        \<lparr>action = Raise, size_pot = Some (D 1.0), frequency = D 0.15, ev = D 7.8\<rparr> = Inr True"
  by (simp add: isBlunder_def getBestAction_def dbl_eval)



section \<open>The input of processAction is not written to\<close>

lemma prefix_nth: "prefix xs ys \<Longrightarrow> i < length xs \<Longrightarrow> ys ! i = xs ! i"
  by (auto simp: prefix_def nth_append)

lemma take_nth: "take (length xs) ys = xs \<Longrightarrow> i < length xs \<Longrightarrow> ys ! i = xs ! i"
  by (metis nth_take)

lemma processActionHeap_frame:
  "processActionHeap hp state a amount = (newState, hp') \<Longrightarrow>
   newState = length (stateObjs hp)
   \<and> take (length (stateObjs hp)) (stateObjs hp') = stateObjs hp
   \<and> prefix (cardArrays hp) (cardArrays hp')
   \<and> playerArrays hp' = playerArrays hp
   \<and> prefix (actionArrays hp) (actionArrays hp')"
  by (auto simp: processActionHeap_def newStateObj_def newActionArray_def newCardArray_def
      setObj_def getObj_def Let_def split: option.splits if_splits)

lemma processActionHeap_refines:
  "validState hp state \<Longrightarrow> processActionHeap hp state a amount = (newState, hp') \<Longrightarrow>
   readState hp' newState = processAction (readState hp state) a amount"
  by (auto simp: processActionHeap_def newStateObj_def newActionArray_def newCardArray_def
      setObj_def getObj_def Let_def validState_def readState_def processAction_def nth_append
      split: option.splits if_splits)

lemma readState_preserved:
  assumes "validState hp p"
    and "take (length (stateObjs hp)) (stateObjs hp') = stateObjs hp"
    and "prefix (cardArrays hp) (cardArrays hp')"
    and "playerArrays hp' = playerArrays hp"
    and "prefix (actionArrays hp) (actionArrays hp')"
  shows "readState hp' p = readState hp p"
proof -
  have ob: "getObj hp' p = getObj hp p"
    using assms(1,2) by (simp add: getObj_def validState_def take_nth)
  show ?thesis
    using assms(1) by (simp add: readState_def ob Let_def validState_def assms(4)
        prefix_nth [OF assms(3)] prefix_nth [OF assms(5)])
qed

text \<open>
  C10. On the store, processAction writes to no object and no array that existed before
  the call. For a well-formed state reference, after the call the argument still reads
  as the same game state (street, pot, board, players and actionHistory included), and
  so does every other state of the store; the result is a fresh object, which reads as
  the state that the functional processAction computes, and its actionHistory is the
  input's with exactly one record (the action's type and amount and the street before
  the action) appended.
\<close>

theorem processAction_input_unchanged:
  assumes "validState hp state"
    and "processActionHeap hp state a amount = (newState, hp')"
  shows "readState hp' state = readState hp state
       \<and> (\<forall>p. validState hp p \<longrightarrow> readState hp' p = readState hp p)
       \<and> newState = length (stateObjs hp)
       \<and> readState hp' newState = processAction (readState hp state) a amount
       \<and> actionHistory (readState hp' newState)
           = actionHistory (readState hp state)
             @ [\<lparr>pa_type = a, pa_amount = amount, pa_street = street (readState hp state)\<rparr>]"
proof -
  note fr = processActionHeap_frame [OF assms(2)]
  have keep: "readState hp' p = readState hp p" if "validState hp p" for p
    using that fr by (intro readState_preserved) simp_all
  have rf: "readState hp' newState = processAction (readState hp state) a amount"
    by (rule processActionHeap_refines [OF assms])
  show ?thesis
    using keep assms(1) fr rf by (simp add: processAction_actionHistory)
qed

theorem processAction_input_unchanged_witness:
  "validState initialHeap 0
   \<and> readState initialHeap 0 = createInitialGameState
   \<and> fst (processActionHeap initialHeap 0 Bet (Some (D 0.5))) = 1
   \<and> readState (snd (processActionHeap initialHeap 0 Bet (Some (D 0.5)))) 0 = createInitialGameState
   \<and> actionHistory (readState (snd (processActionHeap initialHeap 0 Bet (Some (D 0.5)))) 1)
       = [\<lparr>pa_type = Bet, pa_amount = Some (D 0.5), pa_street = Flop\<rparr>]"
proof -
  have v: "validState initialHeap 0"
    by (simp add: validState_def initialHeap_def getObj_def)
  have r: "readState initialHeap 0 = createInitialGameState"
    by (simp add: readState_def initialHeap_def getObj_def createInitialGameState_def)
  have e: "processActionHeap initialHeap 0 Bet (Some (D 0.5))
             = (fst (processActionHeap initialHeap 0 Bet (Some (D 0.5))),
                snd (processActionHeap initialHeap 0 Bet (Some (D 0.5))))"
    by simp
  have l: "length (stateObjs initialHeap) = 1" by (simp add: initialHeap_def)
  have s: "street createInitialGameState = Flop" "actionHistory createInitialGameState = []"
    by (simp_all add: createInitialGameState_def)
  from processAction_input_unchanged [OF v e]
  show ?thesis unfolding r l s using v r by auto
qed

end
